theory Spec2Isabelle
  imports Complex_Main "HOL-Library.Finite_Map"
begin

section \<open>The cache service of StockXpert (src/api/cache.py)\<close>

text \<open>
  The module is a facade over a Redis client with a dictionary fallback inside the process.
  The embedding keeps the shape of the Python: every method is a \<open>try\<close> body that may
  raise, wrapped by its \<open>except Exception\<close> handler; the instance fields are a record; the
  Redis server, the clock and the process environment are explicit arguments.

  Conventions.
  \<^item> Time is an \<open>int\<close>, in microseconds (the resolution of \<open>datetime.now()\<close>). An age
    \<open>(now - timestamp).total_seconds()\<close> is compared with the TTL in seconds as
    \<open>now - timestamp < ttl * 1000000\<close>; the rounding of \<open>total_seconds()\<close> to a float is
    not modelled, and no float is computed anywhere.
  \<^item> A method call happens at one instant, which is also the time on the server's clock;
    only \<open>health_check\<close> reads the clock twice.
  \<^item> \<open>str\<close> and \<open>bytes\<close> are both \<open>string\<close>: a text is identified with its UTF-8 bytes.
  \<^item> An exception is a value \<open>Inl e\<close>; \<open>exn\<close> lists subclasses of \<open>Exception\<close> only.
  \<^item> Calls of \<open>logger\<close> change neither a result nor a field and are left out.
  \<^item> The functions \<open>set_cache\<close> and \<open>get_cache\<close> of the module pass their arguments to
    the methods of the global instance; they are the methods below on that instance.
\<close>

subsection \<open>Exceptions and values\<close>

datatype exn =
    ConnectionError string
  | TimeoutError string
  | ResponseError string
  | TypeError string
  | ValueError string
  | UnicodeDecodeError string
  | JSONDecodeError string

text \<open>\<open>str(e)\<close>: the message of the exception.\<close>

fun str_exn :: "exn \<Rightarrow> string" where
  "str_exn (ConnectionError m) = m"
| "str_exn (TimeoutError m) = m"
| "str_exn (ResponseError m) = m"
| "str_exn (TypeError m) = m"
| "str_exn (ValueError m) = m"
| "str_exn (UnicodeDecodeError m) = m"
| "str_exn (JSONDecodeError m) = m"

text \<open>
  The cached data (\<open>Dict[Any, Any]\<close> in the annotations, any object at run time). An
  object is given by what it holds, and then two objects are equal when Python's \<open>==\<close>
  says so, or by its address, \<open>PRef a\<close>, and then it is equal to itself only: what is
  equal to \<open>PRef a\<close> is that very object. Floats are not part of the model.
\<close>

datatype pyval =
    PNone
  | PBool bool
  | PInt int
  | PStr string
  | PList "pyval list"
  | PTuple "pyval list"
  | PDict "(pyval \<times> pyval) list"
  | PRef nat

text \<open>
  The values of the flat dictionaries returned by \<open>get_cache_stats\<close> and
  \<open>health_check\<close>. \<open>DMillis us\<close> stands for the float
  \<open>round(d.total_seconds() * 1000, 2)\<close> of a \<open>timedelta\<close> \<open>d\<close> of \<open>us\<close> microseconds; it
  is kept as the microseconds it is computed from.
\<close>

datatype dval = DStr string | DBool bool | DInt int | DMillis int

type_synonym pydict = "(string \<times> dval) list"

subsection \<open>The Redis server, as the client sees it\<close>

text \<open>
  The six commands the module sends. The server keeps, for each name, a value and the time
  at which it expires. \<open>faults\<close> is the schedule of what goes wrong: each call takes the
  head, and \<open>Some e\<close> makes that call raise \<open>e\<close> without touching the store (an empty
  schedule means no fault). \<open>sent\<close> records every command the client was asked to send,
  oldest first. \<open>KEYS\<close> answers with a set: Redis gives the names in no particular order.
\<close>

datatype command =
    SETEX string int string
  | GET string
  | DEL "string fset"
  | KEYS string
  | INFO
  | PING

record redis =
  store :: "(string, string \<times> int) fmap"
  server_info :: pydict
  faults :: "exn option list"
  sent :: "command list"

definition request :: "command \<Rightarrow> redis \<Rightarrow> exn option \<times> redis" where
  "request c r =
     (case faults r of
        [] \<Rightarrow> (None, r\<lparr>sent := sent r @ [c]\<rparr>)
      | f # fs \<Rightarrow> (f, r\<lparr>faults := fs, sent := sent r @ [c]\<rparr>))"

text \<open>The value of a name that has not expired at \<open>now\<close>.\<close>

definition redis_lookup :: "int \<Rightarrow> redis \<Rightarrow> string \<Rightarrow> string option" where
  "redis_lookup now r name =
     (case fmlookup (store r) name of
        None \<Rightarrow> None
      | Some (v, deadline) \<Rightarrow> if now < deadline then Some v else None)"

definition live_keys :: "int \<Rightarrow> redis \<Rightarrow> string fset" where
  "live_keys now r = ffilter (\<lambda>k. redis_lookup now r k \<noteq> None) (fmdom (store r))"

text \<open>
  Glob matching, for the patterns made of literal characters and \<open>*\<close> (the module's only
  pattern is \<open>stockxpert:*\<close>).
\<close>

fun glob :: "string \<Rightarrow> string \<Rightarrow> bool" where
  "glob [] s = (s = [])"
| "glob (p # ps) [] = (p = CHR ''*'' \<and> glob ps [])"
| "glob (p # ps) (c # cs) =
     (if p = CHR ''*'' then glob ps (c # cs) \<or> glob (p # ps) cs
      else p = c \<and> glob ps cs)"

text \<open>
  The expiry the server accepts for \<open>SETEX\<close>, in seconds: a positive number whose
  milliseconds, and the time of expiry on the server's clock in milliseconds, fit a signed
  64-bit integer.
\<close>

definition expiry_accepted :: "int \<Rightarrow> int \<Rightarrow> bool" where
  "expiry_accepted time now =
     (0 < time \<and> time \<le> 9223372036854775807 div 1000 \<and>
      time * 1000 + now div 1000 \<le> 9223372036854775807)"

text \<open>\<open>SETEX name time value\<close>: the server refuses an expiry it does not accept.\<close>

definition redis_setex :: "string \<Rightarrow> int \<Rightarrow> string \<Rightarrow> int \<Rightarrow> redis \<Rightarrow> (exn + bool) \<times> redis" where
  "redis_setex name time val now r =
     (case request (SETEX name time val) r of
        (Some e, r') \<Rightarrow> (Inl e, r')
      | (None, r') \<Rightarrow>
          if time < - 9223372036854775808 \<or> 9223372036854775807 < time
          then (Inl (ResponseError ''value is not an integer or out of range''), r')
          else if \<not> expiry_accepted time now
          then (Inl (ResponseError ''invalid expire time in setex command''), r')
          else (Inr True, r'\<lparr>store := fmupd name (val, now + time * 1000000) (store r')\<rparr>))"

definition redis_get :: "string \<Rightarrow> int \<Rightarrow> redis \<Rightarrow> (exn + string option) \<times> redis" where
  "redis_get name now r =
     (case request (GET name) r of
        (Some e, r') \<Rightarrow> (Inl e, r')
      | (None, r') \<Rightarrow> (Inr (redis_lookup now r' name), r'))"

text \<open>\<open>DEL\<close> answers with the number of names that existed.\<close>

definition redis_delete :: "string fset \<Rightarrow> int \<Rightarrow> redis \<Rightarrow> (exn + nat) \<times> redis" where
  "redis_delete names now r =
     (case request (DEL names) r of
        (Some e, r') \<Rightarrow> (Inl e, r')
      | (None, r') \<Rightarrow>
          (Inr (fcard (names |\<inter>| live_keys now r')),
           r'\<lparr>store := fmdrop_fset names (store r')\<rparr>))"

definition redis_keys :: "string \<Rightarrow> int \<Rightarrow> redis \<Rightarrow> (exn + string fset) \<times> redis" where
  "redis_keys pattern now r =
     (case request (KEYS pattern) r of
        (Some e, r') \<Rightarrow> (Inl e, r')
      | (None, r') \<Rightarrow> (Inr (ffilter (glob pattern) (live_keys now r')), r'))"

definition redis_info :: "redis \<Rightarrow> (exn + pydict) \<times> redis" where
  "redis_info r =
     (case request INFO r of
        (Some e, r') \<Rightarrow> (Inl e, r')
      | (None, r') \<Rightarrow> (Inr (server_info r'), r'))"

definition redis_ping :: "redis \<Rightarrow> (exn + bool) \<times> redis" where
  "redis_ping r =
     (case request PING r of
        (Some e, r') \<Rightarrow> (Inl e, r')
      | (None, r') \<Rightarrow> (Inr True, r'))"

subsection \<open>The library functions the module calls\<close>

text \<open>
  The address and the keyword arguments of \<open>redis.from_url\<close>, and also the settings of a
  client: its address, the size of its pool, its time-outs in seconds (an \<open>int\<close> or a
  \<open>float\<close>), and the two other keywords.
\<close>

record conn_kwargs =
  url :: string
  max_connections :: int
  socket_connect_timeout :: rat
  socket_timeout :: rat
  retry_on_timeout :: bool
  health_check_interval :: int

text \<open>
  The functions of Python and of its libraries that the module calls are parameters of the
  model: \<open>json_dumps\<close> is \<open>json.dumps(data, default=str, ensure_ascii=False)\<close>,
  \<open>json_loads\<close> is \<open>json.loads\<close>, \<open>bytes_decode\<close> is \<open>bytes.decode('utf-8')\<close>,
  \<open>int_of_str\<close> is \<open>int\<close> on a \<open>str\<close>, and \<open>from_url\<close> is \<open>redis.from_url\<close>, which
  raises or builds a client; the client is known by its settings, which the library takes
  from the keywords and from the address (an option in the query string of the address
  replaces the keyword of the same name). Each may raise, so every theorem holds whatever
  they do.
\<close>

record pylib =
  json_dumps :: "pyval \<Rightarrow> exn + string"
  json_loads :: "string \<Rightarrow> exn + pyval"
  bytes_decode :: "string \<Rightarrow> exn + string"
  int_of_str :: "string \<Rightarrow> exn + int"
  from_url :: "conn_kwargs \<Rightarrow> exn + conn_kwargs"

subsection \<open>The process environment\<close>

type_synonym environ = "string \<Rightarrow> string option"

text \<open>
  \<open>int(os.getenv(name, default))\<close> with an \<open>int\<close> default: the default is returned as it
  is when the variable is unset, and the variable's text goes through \<open>int\<close> when it is
  set. \<open>os.getenv(name, default)\<close> with a \<open>str\<close> default is \<open>getenv_str\<close>.
\<close>

definition getenv_int :: "pylib \<Rightarrow> environ \<Rightarrow> string \<Rightarrow> int \<Rightarrow> exn + int" where
  "getenv_int lib env name dflt =
     (case env name of None \<Rightarrow> Inr dflt | Some s \<Rightarrow> int_of_str lib s)"

definition getenv_str :: "environ \<Rightarrow> string \<Rightarrow> string \<Rightarrow> string" where
  "getenv_str env name dflt = (case env name of None \<Rightarrow> dflt | Some s \<Rightarrow> s)"

subsection \<open>The service\<close>

text \<open>An entry of \<open>fallback_cache\<close>: the dictionary \<open>{"timestamp": ..., "data": ...}\<close>.\<close>

record cache_entry =
  timestamp :: int
  data :: pyval

text \<open>
  The fields of a \<open>CacheService\<close>. \<open>redis_client\<close> is \<open>None\<close> or the client, which is
  known by its settings.
\<close>

record cache_service =
  redis_client :: "conn_kwargs option"
  fallback_cache :: "(string, cache_entry) fmap"
  cache_ttl :: int

type_synonym world = "cache_service \<times> redis"

text \<open>\<open>try: body except Exception as e: handler\<close>, on a body that has already run.\<close>

definition try_except :: "(exn + 'a) \<times> 's \<Rightarrow> (exn \<Rightarrow> exn + 'a) \<Rightarrow> (exn + 'a) \<times> 's" where
  "try_except body handler =
     (case body of
        (Inl e, s) \<Rightarrow> (handler e, s)
      | (Inr v, s) \<Rightarrow> (Inr v, s))"

text \<open>
  The arguments \<open>__init__\<close> evaluates for \<open>redis.from_url\<close>; \<open>int(...)\<close> on the pool
  size may raise.
\<close>

definition from_url_kwargs :: "pylib \<Rightarrow> environ \<Rightarrow> exn + conn_kwargs" where
  "from_url_kwargs lib env =
     (let redis_url = getenv_str env ''REDIS_URL'' ''redis://localhost:6379/0''
      in case getenv_int lib env ''REDIS_MAX_CONNECTIONS'' 10 of
           Inl e \<Rightarrow> Inl e
         | Inr n \<Rightarrow>
             Inr \<lparr>url = redis_url, max_connections = n, socket_connect_timeout = 5,
                  socket_timeout = 5, retry_on_timeout = True, health_check_interval = 30\<rparr>)"

text \<open>
  The \<open>try\<close> block of \<open>__init__\<close>: build the client, then \<open>ping\<close>. The result is the
  client that \<open>redis.from_url\<close> built.
\<close>

definition connect :: "pylib \<Rightarrow> environ \<Rightarrow> redis \<Rightarrow> (exn + conn_kwargs) \<times> redis" where
  "connect lib env r =
     (case from_url_kwargs lib env of
        Inl e \<Rightarrow> (Inl e, r)
      | Inr kw \<Rightarrow>
          (case from_url lib kw of
             Inl e \<Rightarrow> (Inl e, r)
           | Inr client \<Rightarrow>
               (case redis_ping r of
                  (Inl e, r') \<Rightarrow> (Inl e, r')
                | (Inr _, r') \<Rightarrow> (Inr client, r'))))"

text \<open>
  \<open>CacheService.__init__\<close>. The TTL is read outside the \<open>try\<close>, so a malformed
  \<open>CACHE_TTL_SECONDS\<close> makes the constructor raise; any exception of the \<open>try\<close> block
  leaves \<open>redis_client\<close> at \<open>None\<close>.
\<close>

definition cache_service_init :: "pylib \<Rightarrow> environ \<Rightarrow> redis \<Rightarrow> (exn + cache_service) \<times> redis" where
  "cache_service_init lib env r =
     (case getenv_int lib env ''CACHE_TTL_SECONDS'' 3600 of
        Inl e \<Rightarrow> (Inl e, r)
      | Inr ttl \<Rightarrow>
          (case connect lib env r of
             (Inr client, r') \<Rightarrow>
               (Inr \<lparr>redis_client = Some client, fallback_cache = fmempty, cache_ttl = ttl\<rparr>, r')
           | (Inl e, r') \<Rightarrow>
               (Inr \<lparr>redis_client = None, fallback_cache = fmempty, cache_ttl = ttl\<rparr>, r')))"

definition serialize_data :: "pylib \<Rightarrow> pyval \<Rightarrow> string" where
  "serialize_data lib d = (case json_dumps lib d of Inr s \<Rightarrow> s | Inl e \<Rightarrow> ''{}'')"

definition deserialize_data :: "pylib \<Rightarrow> string \<Rightarrow> pyval" where
  "deserialize_data lib s = (case json_loads lib s of Inr v \<Rightarrow> v | Inl e \<Rightarrow> PDict [])"

text \<open>\<open>set_cache\<close>: the body of the \<open>try\<close>, then the method.\<close>

definition set_cache_body :: "pylib \<Rightarrow> int \<Rightarrow> string \<Rightarrow> pyval \<Rightarrow> world \<Rightarrow> (exn + bool) \<times> world" where
  "set_cache_body lib now key d w =
     (case w of (svc, r) \<Rightarrow>
        (case redis_client svc of
           Some c \<Rightarrow>
             (let serialized_data = serialize_data lib d
              in case redis_setex (''stockxpert:'' @ key) (cache_ttl svc) serialized_data now r of
                   (Inl e, r') \<Rightarrow> (Inl e, (svc, r'))
                 | (Inr result, r') \<Rightarrow> (Inr result, (svc, r')))
         | None \<Rightarrow>
             (Inr True,
              (svc\<lparr>fallback_cache :=
                     fmupd key \<lparr>timestamp = now, data = d\<rparr> (fallback_cache svc)\<rparr>, r))))"

definition set_cache :: "pylib \<Rightarrow> int \<Rightarrow> string \<Rightarrow> pyval \<Rightarrow> world \<Rightarrow> (exn + bool) \<times> world" where
  "set_cache lib now key d w = try_except (set_cache_body lib now key d w) (\<lambda>e. Inr False)"

text \<open>\<open>get_cache\<close>. \<open>if cached_data:\<close> is false for \<open>None\<close> and for empty bytes.\<close>

definition get_cache_body :: "pylib \<Rightarrow> int \<Rightarrow> string \<Rightarrow> world \<Rightarrow> (exn + pyval option) \<times> world" where
  "get_cache_body lib now key w =
     (case w of (svc, r) \<Rightarrow>
        (case redis_client svc of
           Some c \<Rightarrow>
             (case redis_get (''stockxpert:'' @ key) now r of
                (Inl e, r') \<Rightarrow> (Inl e, (svc, r'))
              | (Inr cached_data, r') \<Rightarrow>
                  (case cached_data of
                     None \<Rightarrow> (Inr None, (svc, r'))
                   | Some b \<Rightarrow>
                       if b = [] then (Inr None, (svc, r'))
                       else (case bytes_decode lib b of
                               Inl e \<Rightarrow> (Inl e, (svc, r'))
                             | Inr s \<Rightarrow> (Inr (Some (deserialize_data lib s)), (svc, r')))))
         | None \<Rightarrow>
             (case fmlookup (fallback_cache svc) key of
                Some cache_entry \<Rightarrow>
                  if now - timestamp cache_entry < cache_ttl svc * 1000000
                  then (Inr (Some (data cache_entry)), (svc, r))
                  else (Inr None,
                        (svc\<lparr>fallback_cache := fmdrop key (fallback_cache svc)\<rparr>, r))
              | None \<Rightarrow> (Inr None, (svc, r)))))"

definition get_cache :: "pylib \<Rightarrow> int \<Rightarrow> string \<Rightarrow> world \<Rightarrow> (exn + pyval option) \<times> world" where
  "get_cache lib now key w = try_except (get_cache_body lib now key w) (\<lambda>e. Inr None)"

text \<open>\<open>delete_cache\<close>. \<open>bool(result)\<close> of a count is \<open>result \<noteq> 0\<close>.\<close>

definition delete_cache_body :: "int \<Rightarrow> string \<Rightarrow> world \<Rightarrow> (exn + bool) \<times> world" where
  "delete_cache_body now key w =
     (case w of (svc, r) \<Rightarrow>
        (case redis_client svc of
           Some c \<Rightarrow>
             (case redis_delete {|''stockxpert:'' @ key|} now r of
                (Inl e, r') \<Rightarrow> (Inl e, (svc, r'))
              | (Inr result, r') \<Rightarrow> (Inr (result \<noteq> 0), (svc, r')))
         | None \<Rightarrow>
             if key |\<in>| fmdom (fallback_cache svc)
             then (Inr True, (svc\<lparr>fallback_cache := fmdrop key (fallback_cache svc)\<rparr>, r))
             else (Inr False, (svc, r))))"

definition delete_cache :: "int \<Rightarrow> string \<Rightarrow> world \<Rightarrow> (exn + bool) \<times> world" where
  "delete_cache now key w = try_except (delete_cache_body now key w) (\<lambda>e. Inr False)"

text \<open>\<open>clear_cache\<close>. \<open>if keys:\<close> is false for the empty answer.\<close>

definition clear_cache_body :: "int \<Rightarrow> world \<Rightarrow> (exn + bool) \<times> world" where
  "clear_cache_body now w =
     (case w of (svc, r) \<Rightarrow>
        (case redis_client svc of
           Some c \<Rightarrow>
             (case redis_keys ''stockxpert:*'' now r of
                (Inl e, r') \<Rightarrow> (Inl e, (svc, r'))
              | (Inr keys, r') \<Rightarrow>
                  if keys \<noteq> {||}
                  then (case redis_delete keys now r' of
                          (Inl e, r'') \<Rightarrow> (Inl e, (svc, r''))
                        | (Inr result, r'') \<Rightarrow> (Inr (result \<noteq> 0), (svc, r'')))
                  else (Inr True, (svc, r')))
         | None \<Rightarrow> (Inr True, (svc\<lparr>fallback_cache := fmempty\<rparr>, r))))"

definition clear_cache :: "int \<Rightarrow> world \<Rightarrow> (exn + bool) \<times> world" where
  "clear_cache now w = try_except (clear_cache_body now w) (\<lambda>e. Inr False)"

text \<open>\<open>info.get(key, default)\<close>.\<close>

definition dict_get :: "pydict \<Rightarrow> string \<Rightarrow> dval \<Rightarrow> dval" where
  "dict_get d k dflt = (case map_of d k of Some v \<Rightarrow> v | None \<Rightarrow> dflt)"

definition get_cache_stats_body :: "int \<Rightarrow> world \<Rightarrow> (exn + pydict) \<times> world" where
  "get_cache_stats_body now w =
     (case w of (svc, r) \<Rightarrow>
        (case redis_client svc of
           Some c \<Rightarrow>
             (case redis_info r of
                (Inl e, r') \<Rightarrow> (Inl e, (svc, r'))
              | (Inr info, r') \<Rightarrow>
                  (case redis_keys ''stockxpert:*'' now r' of
                     (Inl e, r'') \<Rightarrow> (Inl e, (svc, r''))
                   | (Inr keys, r'') \<Rightarrow>
                       (Inr [(''backend'', DStr ''redis''),
                             (''connected'', DBool True),
                             (''total_keys'', DInt (int (fcard keys))),
                             (''memory_usage'', dict_get info ''used_memory_human'' (DStr ''Unknown'')),
                             (''hits'', dict_get info ''keyspace_hits'' (DInt 0)),
                             (''misses'', dict_get info ''keyspace_misses'' (DInt 0))],
                        (svc, r''))))
         | None \<Rightarrow>
             (Inr [(''backend'', DStr ''in-memory''),
                   (''connected'', DBool False),
                   (''total_keys'', DInt (int (fcard (fmdom (fallback_cache svc))))),
                   (''memory_usage'', DStr ''Unknown''),
                   (''hits'', DInt 0),
                   (''misses'', DInt 0)],
              (svc, r))))"

definition get_cache_stats :: "int \<Rightarrow> world \<Rightarrow> (exn + pydict) \<times> world" where
  "get_cache_stats now w =
     try_except (get_cache_stats_body now w) (\<lambda>e. Inr [(''error'', DStr (str_exn e))])"

text \<open>\<open>health_check\<close>: \<open>t0\<close> and \<open>t1\<close> are the clock before and after the \<open>ping\<close>.\<close>

definition health_check_body :: "int \<Rightarrow> int \<Rightarrow> world \<Rightarrow> (exn + pydict) \<times> world" where
  "health_check_body t0 t1 w =
     (case w of (svc, r) \<Rightarrow>
        (case redis_client svc of
           Some c \<Rightarrow>
             (case redis_ping r of
                (Inl e, r') \<Rightarrow> (Inl e, (svc, r'))
              | (Inr pong, r') \<Rightarrow>
                  (Inr [(''status'', DStr ''healthy''),
                        (''backend'', DStr ''redis''),
                        (''response_time_ms'', DMillis (t1 - t0)),
                        (''connected'', DBool True)],
                   (svc, r')))
         | None \<Rightarrow>
             (Inr [(''status'', DStr ''degraded''),
                   (''backend'', DStr ''in-memory''),
                   (''response_time_ms'', DInt 0),
                   (''connected'', DBool False),
                   (''message'', DStr ''Using fallback in-memory cache'')],
              (svc, r))))"

definition health_check :: "int \<Rightarrow> int \<Rightarrow> world \<Rightarrow> (exn + pydict) \<times> world" where
  "health_check t0 t1 w =
     try_except (health_check_body t0 t1 w)
       (\<lambda>e. Inr [(''status'', DStr ''unhealthy''),
                  (''backend'', DStr ''redis''),
                  (''connected'', DBool False),
                  (''error'', DStr (str_exn e))])"

subsection \<open>Observations used in the statements\<close>

text \<open>None of the next \<open>n\<close> calls to the server is scheduled to fail.\<close>

definition no_fault :: "nat \<Rightarrow> redis \<Rightarrow> bool" where
  "no_fault n r = list_all (\<lambda>f. f = None) (take n (faults r))"

text \<open>
  The active backend holds an entry for \<open>key\<close> at time \<open>now\<close>: a live value under the
  namespaced name on the server, or a key of the fallback dictionary.
\<close>

definition holds_entry :: "int \<Rightarrow> world \<Rightarrow> string \<Rightarrow> bool" where
  "holds_entry now w key =
     (case w of (svc, r) \<Rightarrow>
        (case redis_client svc of
           Some c \<Rightarrow> redis_lookup now r (''stockxpert:'' @ key) \<noteq> None
         | None \<Rightarrow> key |\<in>| fmdom (fallback_cache svc)))"

text \<open>
  A value that survives the trip through the server: \<open>json.dumps\<close> gives a text that is
  not empty, that text decodes to itself, and \<open>json.loads\<close> gives the value back.
\<close>

definition serializable :: "pylib \<Rightarrow> pyval \<Rightarrow> bool" where
  "serializable lib v =
     (case json_dumps lib v of
        Inl e \<Rightarrow> False
      | Inr s \<Rightarrow> s \<noteq> [] \<and> bytes_decode lib s = Inr s \<and> json_loads lib s = Inr v)"

subsection \<open>Sample inputs\<close>

text \<open>
  A few rows of what the library functions do, enough to run the service on concrete
  inputs. \<open>json.dumps\<close> writes \<open>{"x": 1}\<close> and \<open>[1, 2]\<close> as they stand, writes a
  tuple as an array, so \<open>{"x": (1, 2)}\<close> and \<open>{"x": [1, 2]}\<close> give the same text, and
  refuses a dictionary with a tuple as key; \<open>json.loads\<close> reads an array back as a list
  and refuses text that is not JSON; ASCII bytes decode to themselves and the byte
  \<open>0xFF\<close> does not decode; \<open>int\<close> reads four decimal texts; \<open>redis.from_url\<close> builds,
  for a positive pool size, a client with the keywords as its settings from the default
  address, and a client with the time-outs \<open>2\<close> and \<open>1\<close> from the address that carries
  these two in its query string. Off these rows the sample raises; no theorem below
  depends on it, they hold for every \<open>lib\<close>.
\<close>

definition sample_lib :: pylib where
  \<open>sample_lib =
     \<lparr>json_dumps = (\<lambda>v. if v = PDict [(PStr ''x'', PInt 1)] then Inr ''{"x": 1}''
                         else if v = PList [PInt 1, PInt 2] then Inr ''[1, 2]''
                         else if v = PDict [(PStr ''x'', PList [PInt 1, PInt 2])]
                         then Inr ''{"x": [1, 2]}''
                         else if v = PDict [(PStr ''x'', PTuple [PInt 1, PInt 2])]
                         then Inr ''{"x": [1, 2]}''
                         else if v = PDict [(PTuple [PInt 1, PInt 2], PInt 3)]
                         then Inl (TypeError ''keys must be str, int, float, bool or None'')
                         else Inl (TypeError ''not in the sample'')),
      json_loads = (\<lambda>s. if s = ''{"x": 1}'' then Inr (PDict [(PStr ''x'', PInt 1)])
                         else if s = ''[1, 2]'' then Inr (PList [PInt 1, PInt 2])
                         else if s = ''{"x": [1, 2]}''
                         then Inr (PDict [(PStr ''x'', PList [PInt 1, PInt 2])])
                         else if s = ''{}'' then Inr (PDict [])
                         else if s = ''not json'' then Inl (JSONDecodeError ''Expecting value'')
                         else Inl (JSONDecodeError ''not in the sample'')),
      bytes_decode = (\<lambda>b. if list_all (\<lambda>c. (of_char c :: nat) < 128) b then Inr b
                           else if b = [CHR 0xFF]
                           then Inl (UnicodeDecodeError ''invalid start byte'')
                           else Inl (UnicodeDecodeError ''not in the sample'')),
      int_of_str = (\<lambda>s. if s = ''0'' then Inr 0
                         else if s = ''50'' then Inr 50
                         else if s = ''60'' then Inr 60
                         else if s = ''9223372036854775807'' then Inr 9223372036854775807
                         else Inl (ValueError ''not in the sample'')),
      from_url = (\<lambda>kw. if url kw = ''redis://localhost:6379/0'' \<and> 0 < max_connections kw
                        then Inr kw
                        else if url kw =
                            ''redis://localhost:6379/0?socket_connect_timeout=2&socket_timeout=1'' \<and>
                          0 < max_connections kw
                        then Inr (kw\<lparr>socket_connect_timeout := 2, socket_timeout := 1\<rparr>)
                        else Inl (ValueError ''not in the sample''))\<rparr>\<close>

text \<open>
  The value \<open>{"x": 1}\<close>; a dictionary with a tuple as value, \<open>{"x": (1, 2)}\<close>; and one
  with a tuple as key, on which \<open>json.dumps\<close> raises \<open>TypeError\<close>.
\<close>

definition x_one :: pyval where
  "x_one = PDict [(PStr ''x'', PInt 1)]"

definition tuple_valued :: pyval where
  "tuple_valued = PDict [(PStr ''x'', PTuple [PInt 1, PInt 2])]"

definition tuple_keyed :: pyval where
  "tuple_keyed = PDict [(PTuple [PInt 1, PInt 2], PInt 3)]"

definition redis_up :: redis where
  "redis_up =
     \<lparr>store = fmempty,
      server_info = [(''used_memory_human'', DStr ''1.00M''), (''keyspace_hits'', DInt 7),
                     (''keyspace_misses'', DInt 2)],
      faults = [],
      sent = []\<rparr>"

text \<open>A fallback service holding a fresh entry \<open>a\<close> and a stale entry \<open>b\<close> at time \<open>6000 s\<close>.\<close>

definition svc_two :: cache_service where
  "svc_two =
     \<lparr>redis_client = None,
      fallback_cache =
        fmupd ''a'' \<lparr>timestamp = 5000000000, data = x_one\<rparr>
          (fmupd ''b'' \<lparr>timestamp = 0, data = PInt 7\<rparr> fmempty),
      cache_ttl = 3600\<rparr>"

text \<open>
  The arguments \<open>__init__\<close> passes to \<open>redis.from_url\<close> in an empty environment, which are
  also the settings of the client built from them.
\<close>

definition kwargs_default :: conn_kwargs where
  "kwargs_default =
     \<lparr>url = ''redis://localhost:6379/0'', max_connections = 10, socket_connect_timeout = 5,
      socket_timeout = 5, retry_on_timeout = True, health_check_interval = 30\<rparr>"

definition svc_remote :: cache_service where
  "svc_remote = \<lparr>redis_client = Some kwargs_default, fallback_cache = fmempty, cache_ttl = 3600\<rparr>"

text \<open>
  A server holding a live entry of the module, an expired one, one that is not JSON and an
  entry of another application; a server holding bytes that are not UTF-8; the first
  server with a time-out scheduled for the next call; and a server that refuses the
  connection.
\<close>

definition redis_busy :: redis where
  "redis_busy =
     redis_up\<lparr>store :=
       fmupd ''stockxpert:a'' (''[1, 2]'', 9000000000)
         (fmupd ''stockxpert:old'' (''{}'', 1)
            (fmupd ''stockxpert:junk'' (''not json'', 9000000000)
               (fmupd ''other:z'' (''zzz'', 9000000000) fmempty)))\<rparr>"

definition redis_garbled :: redis where
  "redis_garbled = redis_up\<lparr>store := fmupd ''stockxpert:a'' ([CHR 0xFF], 9000000000) fmempty\<rparr>"

definition redis_failing :: redis where
  "redis_failing = redis_busy\<lparr>faults := [Some (TimeoutError ''Timeout reading from socket'')]\<rparr>"

definition redis_down :: redis where
  "redis_down = redis_up\<lparr>faults := [Some (ConnectionError ''Connection refused'')]\<rparr>"

text \<open>
  Environments: nothing set; a TTL of zero; the largest TTL that fits 64 bits; and one that
  sets the three variables, with the two time-outs in the query string of the address.
\<close>

definition env_empty :: environ where
  "env_empty = map_of []"

definition env_ttl0 :: environ where
  "env_ttl0 = map_of [(''CACHE_TTL_SECONDS'', ''0'')]"

definition env_ttl_max :: environ where
  "env_ttl_max = map_of [(''CACHE_TTL_SECONDS'', ''9223372036854775807'')]"


text \<open>The services that these environments give.\<close>

definition svc_ttl0 :: cache_service where
  "svc_ttl0 = \<lparr>redis_client = None, fallback_cache = fmempty, cache_ttl = 0\<rparr>"

definition svc_ttl_max :: cache_service where
  "svc_ttl_max =
     \<lparr>redis_client = Some kwargs_default, fallback_cache = fmempty,
      cache_ttl = 9223372036854775807\<rparr>"


section \<open>Properties\<close>

subsection \<open>Shared facts\<close>

lemma try_except_Inr:
  "fst (try_except body (\<lambda>e. Inr (h e))) = Inr (case fst body of Inl e \<Rightarrow> h e | Inr v \<Rightarrow> v)"
  by (cases body; cases "fst body") (auto simp: try_except_def)

lemma request_fields:
  "request c r = (f, r') \<Longrightarrow>
     store r' = store r \<and> server_info r' = server_info r \<and> sent r' = sent r @ [c]"
  by (auto simp: request_def split: list.splits)

lemma glob_star: "glob ''*'' s"
  by (induction s) auto

lemma glob_prefix: "CHR ''*'' \<notin> set pre \<Longrightarrow> glob (pre @ ''*'') s \<longleftrightarrow> (\<exists>t. s = pre @ t)"
proof (induction pre arbitrary: s)
  case Nil
  then show ?case using glob_star by simp
next
  case (Cons p pre)
  then show ?case by (cases s) auto
qed

lemma glob_namespace: "glob ''stockxpert:*'' s \<longleftrightarrow> (\<exists>t. s = ''stockxpert:'' @ t)"
  using glob_prefix [of "''stockxpert:''" s] by simp

lemma request_cases [case_names ok fault]:
  assumes "\<And>r'. request c r = (None, r') \<Longrightarrow> store r' = store r \<Longrightarrow>
             server_info r' = server_info r \<Longrightarrow> sent r' = sent r @ [c] \<Longrightarrow> P"
    and "\<And>e r'. request c r = (Some e, r') \<Longrightarrow> store r' = store r \<Longrightarrow>
             server_info r' = server_info r \<Longrightarrow> sent r' = sent r @ [c] \<Longrightarrow> P"
  shows P
proof (cases "request c r")
  case (Pair f r')
  show ?thesis
  proof (cases f)
    case None
    with Pair request_fields [OF Pair] assms(1) show ?thesis by simp
  next
    case (Some e)
    with Pair request_fields [OF Pair] assms(2) show ?thesis by simp
  qed
qed

lemma redis_lookup_store: "store r' = store r \<Longrightarrow> redis_lookup now r' n = redis_lookup now r n"
  by (simp add: redis_lookup_def)

lemma live_keys_store: "store r' = store r \<Longrightarrow> live_keys now r' = live_keys now r"
  by (simp add: live_keys_def redis_lookup_def)

lemma live_keys_iff: "n |\<in>| live_keys now r \<longleftrightarrow> redis_lookup now r n \<noteq> None"
  by (cases "fmlookup (store r) n") (simp_all add: live_keys_def redis_lookup_def fmlookup_dom_iff)

lemma no_fault_request:
  "no_fault (Suc n) r \<Longrightarrow> request c r = (f, r') \<Longrightarrow> f = None \<and> no_fault n r'"
  by (cases "faults r") (auto simp: request_def no_fault_def)

lemma redis_lookup_later:
  "redis_lookup now r n = None \<Longrightarrow> now \<le> t \<Longrightarrow> redis_lookup t r n = None"
  by (cases "fmlookup (store r) n") (auto simp: redis_lookup_def split: if_splits)

lemma redis_lookup_dropped:
  "store r' = fmdrop_fset ks (store r) \<Longrightarrow>
     redis_lookup t r' n = (if n |\<in>| ks then None else redis_lookup t r n)"
  by (simp add: redis_lookup_def)

lemma fcard_single_inter: "fcard ({|x|} |\<inter>| A) \<noteq> 0 \<longleftrightarrow> x |\<in>| A"
proof (cases "x |\<in>| A")
  case True
  then have "{|x|} |\<inter>| A = {|x|}" by auto
  with True show ?thesis by simp
next
  case False
  then have "{|x|} |\<inter>| A = {||}" by auto
  with False show ?thesis by simp
qed

lemma get_cache_absent: "\<not> holds_entry t w k \<Longrightarrow> fst (get_cache lib t k w) = Inr None"
proof (cases w)
  case (Pair svc r)
  assume a: "\<not> holds_entry t w k"
  show ?thesis
  proof (cases "redis_client svc")
    case None
    with a Pair have "fmlookup (fallback_cache svc) k = None"
      by (simp add: holds_entry_def fmdom_notD)
    with None Pair show ?thesis
      by (simp add: get_cache_def get_cache_body_def try_except_def)
  next
    case (Some c)
    with a Pair have l: "redis_lookup t r (''stockxpert:'' @ k) = None"
      by (simp add: holds_entry_def)
    show ?thesis
      by (rule request_cases [of "GET (''stockxpert:'' @ k)" r])
         (use l Some Pair in \<open>simp_all add: get_cache_def get_cache_body_def try_except_def
            redis_get_def redis_lookup_def\<close>)
  qed
qed

lemma set_cache_local:
  "redis_client svc = None \<Longrightarrow>
     set_cache lib now k v (svc, r) =
       (Inr True,
        (svc\<lparr>fallback_cache := fmupd k \<lparr>timestamp = now, data = v\<rparr> (fallback_cache svc)\<rparr>, r))"
  by (simp add: set_cache_def set_cache_body_def try_except_def)

lemma set_get_local:
  "redis_client svc = None \<Longrightarrow> t - now < cache_ttl svc * 1000000 \<Longrightarrow>
     fst (get_cache lib' t k (snd (set_cache lib now k v (svc, r)))) = Inr (Some v)"
  by (simp add: set_cache_local get_cache_def get_cache_body_def try_except_def)

lemma set_cache_remote_ok:
  assumes c: "redis_client svc = Some c" and nf: "no_fault (Suc n) r"
    and ttl: "expiry_accepted (cache_ttl svc) now"
  shows "\<exists>r'. set_cache lib now k v (svc, r) = (Inr True, (svc, r')) \<and> no_fault n r' \<and>
           redis_lookup t r' (''stockxpert:'' @ k) =
             (if t < now + cache_ttl svc * 1000000 then Some (serialize_data lib v) else None)"
proof -
  let ?cmd = "SETEX (''stockxpert:'' @ k) (cache_ttl svc) (serialize_data lib v)"
  obtain f r1 where req: "request ?cmd r = (f, r1)"
    by (cases "request ?cmd r")
  from no_fault_request [OF nf req] have f: "f = None" and nf1: "no_fault n r1" by simp_all
  let ?r2 = "r1\<lparr>store := fmupd (''stockxpert:'' @ k)
                (serialize_data lib v, now + cache_ttl svc * 1000000) (store r1)\<rparr>"
  from ttl have rng: "\<not> (cache_ttl svc < - 9223372036854775808 \<or>
      9223372036854775807 < cache_ttl svc)"
    by (simp add: expiry_accepted_def)
  have "set_cache lib now k v (svc, r) = (Inr True, (svc, ?r2))"
    using c req f ttl rng
    by (simp add: set_cache_def set_cache_body_def try_except_def redis_setex_def)
  moreover have "no_fault n ?r2"
    using nf1 by (simp add: no_fault_def)
  moreover have "redis_lookup t ?r2 (''stockxpert:'' @ k) =
             (if t < now + cache_ttl svc * 1000000 then Some (serialize_data lib v) else None)"
    by (simp add: redis_lookup_def)
  ultimately show ?thesis by (intro exI [of _ ?r2]) simp
qed

lemma get_cache_remote_ok:
  assumes c: "redis_client svc = Some c" and nf: "no_fault (Suc n) r"
    and l: "redis_lookup t r (''stockxpert:'' @ k) = Some b" and b: "b \<noteq> []"
    and d: "bytes_decode lib b = Inr s"
  shows "fst (get_cache lib t k (svc, r)) = Inr (Some (deserialize_data lib s))"
proof -
  obtain f r1 where req: "request (GET (''stockxpert:'' @ k)) r = (f, r1)"
    by (cases "request (GET (''stockxpert:'' @ k)) r")
  from no_fault_request [OF nf req] have f: "f = None" by simp
  from request_fields [OF req] have st: "store r1 = store r" by simp
  have "redis_lookup t r1 (''stockxpert:'' @ k) = Some b"
    using l redis_lookup_store [OF st, of t "''stockxpert:'' @ k"] by simp
  then show ?thesis
    using c req f b d
    by (simp add: get_cache_def get_cache_body_def try_except_def redis_get_def)
qed

lemma delete_cache_local:
  "redis_client svc = None \<Longrightarrow>
     delete_cache now k (svc, r) =
       (Inr (k |\<in>| fmdom (fallback_cache svc)),
        (svc\<lparr>fallback_cache := fmdrop k (fallback_cache svc)\<rparr>, r))"
  by (simp add: delete_cache_def delete_cache_body_def try_except_def fmdrop_idle)

lemma delete_cache_remote_ok:
  "redis_client svc = Some c \<Longrightarrow> request (DEL {|''stockxpert:'' @ k|}) r = (None, r') \<Longrightarrow>
     delete_cache now k (svc, r) =
       (Inr (redis_lookup now r (''stockxpert:'' @ k) \<noteq> None),
        (svc, r'\<lparr>store := fmdrop (''stockxpert:'' @ k) (store r')\<rparr>))"
  using request_fields [of "DEL {|''stockxpert:'' @ k|}" r None r']
  by (simp add: delete_cache_def delete_cache_body_def try_except_def redis_delete_def
      fcard_single_inter live_keys_iff redis_lookup_def)

lemma delete_cache_remote_fault:
  "redis_client svc = Some c \<Longrightarrow> request (DEL {|''stockxpert:'' @ k|}) r = (Some e, r') \<Longrightarrow>
     delete_cache now k (svc, r) = (Inr False, (svc, r'))"
  by (simp add: delete_cache_def delete_cache_body_def try_except_def redis_delete_def)

lemma redis_lookup_drop:
  "redis_lookup t (r\<lparr>store := fmdrop m (store r)\<rparr>) n =
     (if n = m then None else redis_lookup t r n)"
  by (simp add: redis_lookup_def)

lemma clear_cache_local:
  "redis_client svc = None \<Longrightarrow>
     clear_cache now (svc, r) = (Inr True, (svc\<lparr>fallback_cache := fmempty\<rparr>, r))"
  by (simp add: clear_cache_def clear_cache_body_def try_except_def)

lemma clear_cache_remote:
  assumes c: "redis_client svc = Some c" and nf: "no_fault 2 r"
  shows "\<exists>r'. clear_cache now (svc, r) = (Inr True, (svc, r')) \<and>
           (\<forall>k t. now \<le> t \<longrightarrow> redis_lookup t r' (''stockxpert:'' @ k) = None)"
proof -
  from nf have nf': "no_fault (Suc 1) r" by (simp add: numeral_2_eq_2)
  obtain f r1 where req1: "request (KEYS ''stockxpert:*'') r = (f, r1)"
    by (cases "request (KEYS ''stockxpert:*'') r")
  from no_fault_request [OF nf' req1] have f: "f = None" and nf1: "no_fault 1 r1" by simp_all
  from request_fields [OF req1] have st1: "store r1 = store r" by simp
  let ?ks = "ffilter (glob ''stockxpert:*'') (live_keys now r1)"
  have dead: "redis_lookup t r1 (''stockxpert:'' @ k) = None"
    if "now \<le> t" "''stockxpert:'' @ k |\<notin>| ?ks" for t k
  proof -
    have "glob ''stockxpert:*'' (''stockxpert:'' @ k)"
      unfolding glob_namespace by blast
    with that(2) have "redis_lookup now r1 (''stockxpert:'' @ k) = None"
      by (simp add: live_keys_iff)
    then show ?thesis using that(1) by (rule redis_lookup_later)
  qed
  show ?thesis
  proof (cases "?ks = {||}")
    case True
    then have "clear_cache now (svc, r) = (Inr True, (svc, r1))"
      using req1 f c
      by (simp add: clear_cache_def clear_cache_body_def try_except_def redis_keys_def)
    moreover have "\<forall>k t. now \<le> t \<longrightarrow> redis_lookup t r1 (''stockxpert:'' @ k) = None"
      using dead True by simp
    ultimately show ?thesis by (intro exI [of _ r1]) simp
  next
    case False
    obtain g r2 where req2: "request (DEL ?ks) r1 = (g, r2)"
      by (cases "request (DEL ?ks) r1")
    from nf1 have "no_fault (Suc 0) r1" by simp
    from no_fault_request [OF this req2] have g: "g = None" by simp
    from request_fields [OF req2] have st2: "store r2 = store r1" by simp
    have "?ks |\<subseteq>| live_keys now r2"
      unfolding live_keys_store [OF st2, of now] by (rule fsubsetI) simp
    then have "?ks |\<inter>| live_keys now r2 = ?ks"
      by (rule inf_absorb1)
    with False have cnt: "fcard (?ks |\<inter>| live_keys now r2) \<noteq> 0"
      by simp
    let ?r3 = "r2\<lparr>store := fmdrop_fset ?ks (store r2)\<rparr>"
    have "clear_cache now (svc, r) = (Inr True, (svc, ?r3))"
      using req1 f c False req2 g cnt
      by (simp add: clear_cache_def clear_cache_body_def try_except_def redis_keys_def
          redis_delete_def)
    moreover have "\<forall>k t. now \<le> t \<longrightarrow> redis_lookup t ?r3 (''stockxpert:'' @ k) = None"
    proof (intro allI impI)
      fix k t assume t: "now \<le> t"
      have "redis_lookup t ?r3 (''stockxpert:'' @ k) =
              (if ''stockxpert:'' @ k |\<in>| ?ks then None
               else redis_lookup t r2 (''stockxpert:'' @ k))"
        by (rule redis_lookup_dropped) simp
      also have "\<dots> = None"
        using dead [OF t, of k] redis_lookup_store [OF st2, of t "''stockxpert:'' @ k"]
        by (cases "''stockxpert:'' @ k |\<in>| ?ks") simp_all
      finally show "redis_lookup t ?r3 (''stockxpert:'' @ k) = None" .
    qed
    ultimately show ?thesis by (intro exI [of _ ?r3]) simp
  qed
qed

subsection \<open>Writing, then reading\<close>

text \<open>
  C1, as the code has it. Let the read happen at time \<open>t\<close> and the write at time \<open>now\<close>,
  less than the TTL apart (for a read at the very time of the write this asks for a positive
  TTL). On the fallback backend \<open>set_cache\<close> returns \<open>True\<close> and \<open>get_cache\<close>
  returns the value, whatever the value is. On the Redis backend the same holds when the
  server accepts the TTL as an expiry (\<open>expiry_accepted\<close>: it is positive and the time of
  expiry fits the server's 64-bit clock), neither call is hit by a fault and the value
  survives the JSON codec (\<open>serializable\<close>).
\<close>

theorem set_then_get:
  "(redis_client svc = None \<and> t - now < cache_ttl svc * 1000000 \<longrightarrow>
      fst (set_cache lib now k v (svc, r)) = Inr True \<and>
      fst (get_cache lib t k (snd (set_cache lib now k v (svc, r)))) = Inr (Some v)) \<and>
   (redis_client svc \<noteq> None \<and> no_fault 2 r \<and> serializable lib v \<and>
    expiry_accepted (cache_ttl svc) now \<and> t - now < cache_ttl svc * 1000000 \<longrightarrow>
      fst (set_cache lib now k v (svc, r)) = Inr True \<and>
      fst (get_cache lib t k (snd (set_cache lib now k v (svc, r)))) = Inr (Some v))"
proof (intro conjI impI)
  assume a: "redis_client svc = None \<and> t - now < cache_ttl svc * 1000000"
  then show "fst (set_cache lib now k v (svc, r)) = Inr True"
    by (simp add: set_cache_local)
  from a show "fst (get_cache lib t k (snd (set_cache lib now k v (svc, r)))) = Inr (Some v)"
    by (simp add: set_get_local)
next
  assume a: "redis_client svc \<noteq> None \<and> no_fault 2 r \<and> serializable lib v \<and>
    expiry_accepted (cache_ttl svc) now \<and> t - now < cache_ttl svc * 1000000"
  then obtain c where c: "redis_client svc = Some c" by auto
  from a have nf: "no_fault (Suc 1) r" by (simp add: numeral_2_eq_2)
  from a have ttl: "expiry_accepted (cache_ttl svc) now"
    and t: "t < now + cache_ttl svc * 1000000" by simp_all
  from a obtain s where s: "json_dumps lib v = Inr s" "s \<noteq> []" "bytes_decode lib s = Inr s"
      "json_loads lib s = Inr v"
    by (auto simp: serializable_def split: sum.splits)
  then have ser: "serialize_data lib v = s" and de: "deserialize_data lib s = v"
    by (simp_all add: serialize_data_def deserialize_data_def)
  from set_cache_remote_ok [OF c nf ttl, of lib k v t] obtain r'
    where st: "set_cache lib now k v (svc, r) = (Inr True, (svc, r'))" and nf': "no_fault 1 r'"
      and l: "redis_lookup t r' (''stockxpert:'' @ k) = Some s"
    using t ser by auto
  from nf' have nf'': "no_fault (Suc 0) r'" by simp
  show "fst (set_cache lib now k v (svc, r)) = Inr True"
    "fst (get_cache lib t k (snd (set_cache lib now k v (svc, r)))) = Inr (Some v)"
    using st get_cache_remote_ok [OF c nf'' l s(2) s(3)] de by simp_all
qed

theorem set_then_get_witness:
  "redis_client svc_two = None \<and> (1000 :: int) - 1000 < cache_ttl svc_two * 1000000 \<and>
   fst (set_cache sample_lib 1000 ''k'' tuple_keyed (svc_two, redis_up)) = Inr True \<and>
   fst (get_cache sample_lib 1000 ''k''
          (snd (set_cache sample_lib 1000 ''k'' tuple_keyed (svc_two, redis_up))))
     = Inr (Some tuple_keyed) \<and>
   redis_client svc_remote \<noteq> None \<and> no_fault 2 redis_up \<and>
   serializable sample_lib x_one \<and> expiry_accepted (cache_ttl svc_remote) 1000 \<and>
   (1000 :: int) - 1000 < cache_ttl svc_remote * 1000000 \<and>
   fst (set_cache sample_lib 1000 ''k'' x_one (svc_remote, redis_up)) = Inr True \<and>
   fst (get_cache sample_lib 1000 ''k''
          (snd (set_cache sample_lib 1000 ''k'' x_one (svc_remote, redis_up))))
     = Inr (Some x_one)"
proof -
  have l: "redis_client svc_two = None" "cache_ttl svc_two = 3600"
    by (simp_all add: svc_two_def)
  have m: "redis_client svc_remote \<noteq> None" "cache_ttl svc_remote = 3600" "no_fault 2 redis_up"
    by (simp_all add: svc_remote_def no_fault_def redis_up_def)
  have e: "expiry_accepted 3600 1000"
    by (simp add: expiry_accepted_def)
  have s: "serializable sample_lib x_one"
    by (simp add: serializable_def sample_lib_def x_one_def)
  show ?thesis
    using set_then_get [of svc_two 1000 1000 sample_lib "''k''" tuple_keyed redis_up]
      set_then_get [of svc_remote 1000 1000 sample_lib "''k''" x_one redis_up]
      l m e s
    by simp
qed

text \<open>
  On the Redis backend a value comes back as JSON reads it: with the rows of the sample,
  the tuple inside \<open>{"x": (1, 2)}\<close> is written as an array and read as a list.
\<close>

lemma remote_tuple_read_as_list:
  "fst (set_cache sample_lib 1000 ''k'' tuple_valued (svc_remote, redis_up)) = Inr True \<and>
   fst (get_cache sample_lib 1000 ''k''
          (snd (set_cache sample_lib 1000 ''k'' tuple_valued (svc_remote, redis_up))))
     = Inr (Some (PDict [(PStr ''x'', PList [PInt 1, PInt 2])]))"
proof -
  have c: "redis_client svc_remote = Some kwargs_default"
    and ttl: "expiry_accepted (cache_ttl svc_remote) 1000"
    and nf: "no_fault (Suc 1) redis_up"
    by (simp_all add: svc_remote_def no_fault_def redis_up_def expiry_accepted_def)
  obtain s where ser: "serialize_data sample_lib tuple_valued = s" and ne: "s \<noteq> []"
    and dec: "bytes_decode sample_lib s = Inr s"
    and de: "deserialize_data sample_lib s = PDict [(PStr ''x'', PList [PInt 1, PInt 2])]"
    by (simp add: serialize_data_def deserialize_data_def sample_lib_def tuple_valued_def)
  from set_cache_remote_ok [OF c nf ttl, of sample_lib "''k''" tuple_valued 1000]
  obtain r' where st: "set_cache sample_lib 1000 ''k'' tuple_valued (svc_remote, redis_up)
        = (Inr True, (svc_remote, r'))"
      and nf': "no_fault 1 r'"
      and l: "redis_lookup 1000 r' (''stockxpert:'' @ ''k'') = Some s"
    using ser by (auto simp: svc_remote_def)
  from nf' have nf'': "no_fault (Suc 0) r'" by simp
  from get_cache_remote_ok [OF c nf'' l ne dec] de st
  show ?thesis by simp
qed

text \<open>The constructor on the sample environments.\<close>

lemma from_url_kwargs_default:
  "env ''REDIS_URL'' = None \<Longrightarrow> env ''REDIS_MAX_CONNECTIONS'' = None \<Longrightarrow>
     from_url_kwargs lib env = Inr kwargs_default"
  by (simp add: from_url_kwargs_def getenv_int_def getenv_str_def kwargs_default_def)

lemma init_ttl0_down:
  "cache_service_init sample_lib env_ttl0 redis_down = (Inr svc_ttl0, redis_up\<lparr>sent := [PING]\<rparr>)"
proof -
  have ttl: "getenv_int sample_lib env_ttl0 ''CACHE_TTL_SECONDS'' 3600 = Inr 0"
    by (simp add: getenv_int_def env_ttl0_def sample_lib_def)
  have kw: "from_url_kwargs sample_lib env_ttl0 = Inr kwargs_default"
    by (rule from_url_kwargs_default) (simp_all add: env_ttl0_def)
  have fu: "from_url sample_lib kwargs_default = Inr kwargs_default"
    by (simp add: sample_lib_def kwargs_default_def)
  have "connect sample_lib env_ttl0 redis_down =
          (Inl (ConnectionError ''Connection refused''), redis_up\<lparr>sent := [PING]\<rparr>)"
    by (simp add: connect_def kw fu redis_ping_def request_def redis_down_def redis_up_def)
  then show ?thesis
    by (simp add: cache_service_init_def ttl svc_ttl0_def)
qed

lemma init_ttl_max_up:
  "cache_service_init sample_lib env_ttl_max redis_up = (Inr svc_ttl_max, redis_up\<lparr>sent := [PING]\<rparr>)"
proof -
  have ttl: "getenv_int sample_lib env_ttl_max ''CACHE_TTL_SECONDS'' 3600 = Inr 9223372036854775807"
    by (simp add: getenv_int_def env_ttl_max_def sample_lib_def)
  have kw: "from_url_kwargs sample_lib env_ttl_max = Inr kwargs_default"
    by (rule from_url_kwargs_default) (simp_all add: env_ttl_max_def)
  have fu: "from_url sample_lib kwargs_default = Inr kwargs_default"
    by (simp add: sample_lib_def kwargs_default_def)
  have "connect sample_lib env_ttl_max redis_up = (Inr kwargs_default, redis_up\<lparr>sent := [PING]\<rparr>)"
    by (simp add: connect_def kw fu redis_ping_def request_def redis_up_def)
  then show ?thesis
    by (simp add: cache_service_init_def ttl svc_ttl_max_def)
qed

text \<open>
  C1 as stated fails in three ways. On the fallback backend with a TTL of zero: with
  \<open>CACHE_TTL_SECONDS=0\<close> and a server that refuses the connection the constructor gives
  a fallback service with \<open>cache_ttl = 0\<close>; there \<open>set_cache\<close> returns \<open>True\<close> and a
  \<open>get_cache\<close> at the same instant finds the age \<open>0\<close> not below the TTL and returns
  \<open>None\<close>. On the Redis backend with the default TTL and no fault: \<open>{"x": (1, 2)}\<close> is
  written and \<open>{"x": [1, 2]}\<close> is read. On the Redis backend with
  \<open>CACHE_TTL_SECONDS=9223372036854775807\<close> and no fault: the server refuses the expiry,
  \<open>set_cache\<close> returns \<open>False\<close> and \<open>get_cache\<close> returns \<open>None\<close>.
\<close>

theorem set_then_get_counterexample:
  "cache_service_init sample_lib env_ttl0 redis_down = (Inr svc_ttl0, redis_up\<lparr>sent := [PING]\<rparr>) \<and>
   fst (set_cache sample_lib 1000 ''a'' x_one (svc_ttl0, redis_up\<lparr>sent := [PING]\<rparr>)) = Inr True \<and>
   fst (get_cache sample_lib 1000 ''a''
          (snd (set_cache sample_lib 1000 ''a'' x_one (svc_ttl0, redis_up\<lparr>sent := [PING]\<rparr>))))
     = Inr None \<and>
   fst (set_cache sample_lib 1000 ''k'' tuple_valued (svc_remote, redis_up)) = Inr True \<and>
   fst (get_cache sample_lib 1000 ''k''
          (snd (set_cache sample_lib 1000 ''k'' tuple_valued (svc_remote, redis_up))))
     = Inr (Some (PDict [(PStr ''x'', PList [PInt 1, PInt 2])])) \<and>
   PDict [(PStr ''x'', PList [PInt 1, PInt 2])] \<noteq> tuple_valued \<and>
   cache_service_init sample_lib env_ttl_max redis_up =
     (Inr svc_ttl_max, redis_up\<lparr>sent := [PING]\<rparr>) \<and>
   fst (set_cache sample_lib 1000 ''a'' x_one (svc_ttl_max, redis_up\<lparr>sent := [PING]\<rparr>)) = Inr False \<and>
   fst (get_cache sample_lib 1000 ''a''
          (snd (set_cache sample_lib 1000 ''a'' x_one (svc_ttl_max, redis_up\<lparr>sent := [PING]\<rparr>))))
     = Inr None"
proof -
  have "fst (set_cache sample_lib 1000 ''a'' x_one
               (svc_ttl0, redis_up\<lparr>sent := [PING]\<rparr>)) = Inr True"
    by (simp add: set_cache_def set_cache_body_def try_except_def svc_ttl0_def)
  moreover have "fst (get_cache sample_lib 1000 ''a''
          (snd (set_cache sample_lib 1000 ''a'' x_one
                  (svc_ttl0, redis_up\<lparr>sent := [PING]\<rparr>)))) = Inr None"
    by (simp add: set_cache_def set_cache_body_def get_cache_def get_cache_body_def
        try_except_def svc_ttl0_def)
  moreover have "PDict [(PStr ''x'', PList [PInt 1, PInt 2])] \<noteq> tuple_valued"
    by (simp add: tuple_valued_def)
  moreover have big: "set_cache sample_lib 1000 ''a'' x_one (svc_ttl_max, redis_up\<lparr>sent := [PING]\<rparr>) =
      (Inr False,
       (svc_ttl_max,
        redis_up\<lparr>sent := [PING, SETEX ''stockxpert:a'' 9223372036854775807
                                 (serialize_data sample_lib x_one)]\<rparr>))"
    by (simp add: set_cache_def set_cache_body_def try_except_def redis_setex_def request_def
        expiry_accepted_def svc_ttl_max_def redis_up_def)
  moreover have "fst (get_cache sample_lib 1000 ''a''
          (snd (set_cache sample_lib 1000 ''a'' x_one
                  (svc_ttl_max, redis_up\<lparr>sent := [PING]\<rparr>)))) = Inr None"
    by (simp add: big)
       (simp add: get_cache_def get_cache_body_def try_except_def redis_get_def request_def
          redis_lookup_def svc_ttl_max_def redis_up_def)
  ultimately show ?thesis
    using remote_tuple_read_as_list init_ttl0_down init_ttl_max_up by simp
qed

subsection \<open>Failure never leaves the facade\<close>

text \<open>
  C2. Whatever the library functions and the server do (any exception of any call, any
  stored bytes, any key and value), each of the six methods returns normally, and when
  the body of its \<open>try\<close> raises the result is the benign value of the handler: \<open>False\<close>
  for \<open>set_cache\<close>, \<open>delete_cache\<close> and \<open>clear_cache\<close>, \<open>None\<close> for \<open>get_cache\<close>, the
  dictionary holding \<open>error\<close> for \<open>get_cache_stats\<close> and the \<open>unhealthy\<close> dictionary with
  \<open>error\<close> for \<open>health_check\<close>.
\<close>

theorem facade_never_raises:
  "fst (set_cache lib now key d w) =
     Inr (case fst (set_cache_body lib now key d w) of Inl e \<Rightarrow> False | Inr b \<Rightarrow> b) \<and>
   fst (get_cache lib now key w) =
     Inr (case fst (get_cache_body lib now key w) of Inl e \<Rightarrow> None | Inr v \<Rightarrow> v) \<and>
   fst (delete_cache now key w) =
     Inr (case fst (delete_cache_body now key w) of Inl e \<Rightarrow> False | Inr b \<Rightarrow> b) \<and>
   fst (clear_cache now w) =
     Inr (case fst (clear_cache_body now w) of Inl e \<Rightarrow> False | Inr b \<Rightarrow> b) \<and>
   fst (get_cache_stats now w) =
     Inr (case fst (get_cache_stats_body now w) of
            Inl e \<Rightarrow> [(''error'', DStr (str_exn e))] | Inr st \<Rightarrow> st) \<and>
   fst (health_check t0 t1 w) =
     Inr (case fst (health_check_body t0 t1 w) of
            Inl e \<Rightarrow> [(''status'', DStr ''unhealthy''), (''backend'', DStr ''redis''),
                      (''connected'', DBool False), (''error'', DStr (str_exn e))]
          | Inr h \<Rightarrow> h)"
  unfolding set_cache_def get_cache_def delete_cache_def clear_cache_def get_cache_stats_def
    health_check_def
  by (intro conjI try_except_Inr)

text \<open>
  The handlers at work: a time-out of the next call to the server, and stored bytes that
  are not UTF-8.
\<close>

lemma faults_give_benign_values:
  "fst (set_cache sample_lib 1000 ''a'' (PList [PInt 1, PInt 2]) (svc_remote, redis_failing)) = Inr False \<and>
   fst (get_cache sample_lib 1000 ''a'' (svc_remote, redis_failing)) = Inr None \<and>
   fst (get_cache sample_lib 1000 ''a'' (svc_remote, redis_garbled)) = Inr None \<and>
   fst (delete_cache 1000 ''a'' (svc_remote, redis_failing)) = Inr False \<and>
   fst (clear_cache 1000 (svc_remote, redis_failing)) = Inr False \<and>
   fst (get_cache_stats 1000 (svc_remote, redis_failing)) =
     Inr [(''error'', DStr ''Timeout reading from socket'')] \<and>
   fst (health_check 0 1500 (svc_remote, redis_failing)) =
     Inr [(''status'', DStr ''unhealthy''), (''backend'', DStr ''redis''),
          (''connected'', DBool False), (''error'', DStr ''Timeout reading from socket'')]"
proof (intro conjI)
  have c: "redis_client svc_remote = Some kwargs_default"
    by (simp add: svc_remote_def)
  have f: "faults redis_failing = [Some (TimeoutError ''Timeout reading from socket'')]"
    by (simp add: redis_failing_def)
  show "fst (set_cache sample_lib 1000 ''a'' (PList [PInt 1, PInt 2]) (svc_remote, redis_failing))
          = Inr False"
    by (simp add: set_cache_def set_cache_body_def try_except_def redis_setex_def request_def c f)
  show "fst (get_cache sample_lib 1000 ''a'' (svc_remote, redis_failing)) = Inr None"
    by (simp add: get_cache_def get_cache_body_def try_except_def redis_get_def request_def c f)
  show "fst (get_cache sample_lib 1000 ''a'' (svc_remote, redis_garbled)) = Inr None"
    by (simp add: get_cache_def get_cache_body_def try_except_def redis_get_def request_def c
        redis_garbled_def redis_up_def redis_lookup_def sample_lib_def)
  show "fst (delete_cache 1000 ''a'' (svc_remote, redis_failing)) = Inr False"
    by (simp add: delete_cache_def delete_cache_body_def try_except_def redis_delete_def
        request_def c f)
  show "fst (clear_cache 1000 (svc_remote, redis_failing)) = Inr False"
    by (simp add: clear_cache_def clear_cache_body_def try_except_def redis_keys_def
        request_def c f)
  show "fst (get_cache_stats 1000 (svc_remote, redis_failing)) =
          Inr [(''error'', DStr ''Timeout reading from socket'')]"
    by (simp add: get_cache_stats_def get_cache_stats_body_def try_except_def redis_info_def
        request_def c f)
  show "fst (health_check 0 1500 (svc_remote, redis_failing)) =
     Inr [(''status'', DStr ''unhealthy''), (''backend'', DStr ''redis''),
          (''connected'', DBool False), (''error'', DStr ''Timeout reading from socket'')]"
    by (simp add: health_check_def health_check_body_def try_except_def redis_ping_def
        request_def c f)
qed

subsection \<open>Reading the fallback dictionary\<close>

text \<open>
  C3. On the fallback backend, \<open>get_cache\<close> on a key of the dictionary returns the stored
  value when the age of the entry is below the TTL; when the age is not below the TTL it
  deletes the key from the dictionary and returns \<open>None\<close>; on a key that is not in the
  dictionary it returns \<open>None\<close>.
\<close>

theorem get_cache_fallback:
  "redis_client svc = None \<Longrightarrow>
   (\<forall>e. fmlookup (fallback_cache svc) k = Some e \<and> now - timestamp e < cache_ttl svc * 1000000
        \<longrightarrow> get_cache lib now k (svc, r) = (Inr (Some (data e)), (svc, r))) \<and>
   (\<forall>e. fmlookup (fallback_cache svc) k = Some e \<and> \<not> now - timestamp e < cache_ttl svc * 1000000
        \<longrightarrow> get_cache lib now k (svc, r) =
              (Inr None, (svc\<lparr>fallback_cache := fmdrop k (fallback_cache svc)\<rparr>, r)) \<and>
            k |\<notin>| fmdom (fallback_cache (fst (snd (get_cache lib now k (svc, r)))))) \<and>
   (fmlookup (fallback_cache svc) k = None
        \<longrightarrow> get_cache lib now k (svc, r) = (Inr None, (svc, r)))"
  by (simp add: get_cache_def get_cache_body_def try_except_def)

theorem get_cache_fallback_witness:
  "redis_client svc_two = None \<and>
   get_cache sample_lib 6000000000 ''a'' (svc_two, redis_up) =
     (Inr (Some x_one), (svc_two, redis_up)) \<and>
   get_cache sample_lib 6000000000 ''b'' (svc_two, redis_up) =
     (Inr None, (svc_two\<lparr>fallback_cache := fmdrop ''b'' (fallback_cache svc_two)\<rparr>, redis_up)) \<and>
   fmlookup (fallback_cache (fst (snd (get_cache sample_lib 6000000000 ''b'' (svc_two, redis_up)))))
     ''b'' = None \<and>
   get_cache sample_lib 6000000000 ''c'' (svc_two, redis_up) = (Inr None, (svc_two, redis_up))"
  using get_cache_fallback [of svc_two "''a''" 6000000000 sample_lib redis_up]
    get_cache_fallback [of svc_two "''b''" 6000000000 sample_lib redis_up]
    get_cache_fallback [of svc_two "''c''" 6000000000 sample_lib redis_up]
  by (simp add: svc_two_def)

subsection \<open>The health report\<close>

text \<open>
  C4. \<open>health_check\<close> reports \<open>healthy\<close> exactly when there is a Redis client and
  its \<open>ping\<close> does not raise (a time-out is an exception of \<open>ping\<close>); it reports
  \<open>degraded\<close> whenever the service runs on the fallback; and when there is a client and
  the \<open>ping\<close> raises it reports \<open>unhealthy\<close> with the text of the exception under
  \<open>error\<close>.
\<close>

theorem health_check_status:
  "\<exists>h. fst (health_check t0 t1 (svc, r)) = Inr h \<and>
     (map_of h ''status'' = Some (DStr ''healthy'') \<longleftrightarrow>
        redis_client svc \<noteq> None \<and> (\<exists>b. fst (redis_ping r) = Inr b)) \<and>
     (redis_client svc = None \<longrightarrow> map_of h ''status'' = Some (DStr ''degraded'')) \<and>
     (\<forall>e. redis_client svc \<noteq> None \<and> fst (redis_ping r) = Inl e \<longrightarrow>
          map_of h ''status'' = Some (DStr ''unhealthy'') \<and>
          map_of h ''error'' = Some (DStr (str_exn e)))"
  by (cases "redis_ping r"; cases "fst (redis_ping r)")
     (auto simp: health_check_def health_check_body_def try_except_def split: option.splits)

theorem health_check_status_witness:
  "(\<exists>h. fst (health_check 0 1500 (svc_remote, redis_up)) = Inr h \<and>
        map_of h ''status'' = Some (DStr ''healthy'')) \<and>
   (\<exists>h. fst (health_check 0 1500 (svc_two, redis_up)) = Inr h \<and>
        map_of h ''status'' = Some (DStr ''degraded'')) \<and>
   (\<exists>h. fst (health_check 0 1500 (svc_remote, redis_failing)) = Inr h \<and>
        map_of h ''status'' = Some (DStr ''unhealthy'') \<and>
        map_of h ''error'' = Some (DStr ''Timeout reading from socket''))"
proof (intro conjI)
  have up: "fst (redis_ping redis_up) = Inr True"
    by (simp add: redis_ping_def request_def redis_up_def)
  have failing: "fst (redis_ping redis_failing) = Inl (TimeoutError ''Timeout reading from socket'')"
    by (simp add: redis_ping_def request_def redis_failing_def)
  have remote: "redis_client svc_remote \<noteq> None"
    by (simp add: svc_remote_def)
  have local: "redis_client svc_two = None"
    by (simp add: svc_two_def)
  show "\<exists>h. fst (health_check 0 1500 (svc_remote, redis_up)) = Inr h \<and>
          map_of h ''status'' = Some (DStr ''healthy'')"
    using health_check_status [of 0 1500 svc_remote redis_up] up remote by auto
  show "\<exists>h. fst (health_check 0 1500 (svc_two, redis_up)) = Inr h \<and>
          map_of h ''status'' = Some (DStr ''degraded'')"
    using health_check_status [of 0 1500 svc_two redis_up] local by auto
  show "\<exists>h. fst (health_check 0 1500 (svc_remote, redis_failing)) = Inr h \<and>
          map_of h ''status'' = Some (DStr ''unhealthy'') \<and>
          map_of h ''error'' = Some (DStr ''Timeout reading from socket'')"
    using health_check_status [of 0 1500 svc_remote redis_failing] failing remote by auto
qed

subsection \<open>The backend named by the statistics\<close>

lemma set_cache_keeps_client:
  "redis_client (fst (snd (set_cache lib now k v (svc, r)))) = redis_client svc"
  by (cases "redis_client svc")
     (simp_all add: set_cache_def set_cache_body_def try_except_def split: prod.splits sum.splits)

lemma get_cache_keeps_client:
  "redis_client (fst (snd (get_cache lib now k (svc, r)))) = redis_client svc"
  by (cases "redis_client svc")
     (simp_all add: get_cache_def get_cache_body_def try_except_def
        split: prod.splits sum.splits option.splits)

lemma delete_cache_keeps_client:
  "redis_client (fst (snd (delete_cache now k (svc, r)))) = redis_client svc"
  by (cases "redis_client svc")
     (simp_all add: delete_cache_def delete_cache_body_def try_except_def
        split: prod.splits sum.splits)

lemma clear_cache_keeps_client:
  "redis_client (fst (snd (clear_cache now (svc, r)))) = redis_client svc"
  by (cases "redis_client svc")
     (simp_all add: clear_cache_def clear_cache_body_def try_except_def
        split: prod.splits sum.splits)

lemma get_cache_stats_keeps_client:
  "redis_client (fst (snd (get_cache_stats now (svc, r)))) = redis_client svc"
  by (cases "redis_client svc")
     (simp_all add: get_cache_stats_def get_cache_stats_body_def try_except_def
        split: prod.splits sum.splits)

lemma health_check_keeps_client:
  "redis_client (fst (snd (health_check t0 t1 (svc, r)))) = redis_client svc"
  by (cases "redis_client svc")
     (simp_all add: health_check_def health_check_body_def try_except_def
        split: prod.splits sum.splits)

lemma init_client:
  assumes "cache_service_init lib env r = (Inr svc0, r')"
  shows "redis_client svc0 \<noteq> None \<longleftrightarrow>
         (\<exists>kw c. from_url_kwargs lib env = Inr kw \<and> from_url lib kw = Inr c \<and>
                 (\<exists>b. fst (redis_ping r) = Inr b))"
  using assms
  by (cases "redis_ping r"; cases "fst (redis_ping r)")
     (auto simp: cache_service_init_def connect_def split: sum.splits)

lemma get_cache_stats_local:
  "redis_client svc = None \<Longrightarrow>
     get_cache_stats now (svc, r) =
        (Inr [(''backend'', DStr ''in-memory''), (''connected'', DBool False),
              (''total_keys'', DInt (int (fcard (fmdom (fallback_cache svc))))),
              (''memory_usage'', DStr ''Unknown''), (''hits'', DInt 0), (''misses'', DInt 0)],
         (svc, r))"
  by (simp add: get_cache_stats_def get_cache_stats_body_def try_except_def)

lemma get_cache_stats_remote_exact:
  assumes c: "redis_client svc = Some c"
  shows "fst (get_cache_stats now (svc, r)) =
           Inr (case fst (redis_info r) of
                Inl e \<Rightarrow> [(''error'', DStr (str_exn e))]
              | Inr info \<Rightarrow>
                  (case fst (redis_keys ''stockxpert:*'' now (snd (redis_info r))) of
                     Inl e \<Rightarrow> [(''error'', DStr (str_exn e))]
                   | Inr keys \<Rightarrow>
                     [(''backend'', DStr ''redis''), (''connected'', DBool True),
                      (''total_keys'', DInt (int (fcard keys))),
                      (''memory_usage'', dict_get info ''used_memory_human'' (DStr ''Unknown'')),
                      (''hits'', dict_get info ''keyspace_hits'' (DInt 0)),
                      (''misses'', dict_get info ''keyspace_misses'' (DInt 0))]))"
proof (cases "redis_info r")
  case (Pair x r1)
  show ?thesis
  proof (cases x)
    case (Inl e)
    with Pair c show ?thesis
      by (simp add: get_cache_stats_def get_cache_stats_body_def try_except_def)
  next
    case (Inr info)
    show ?thesis
    proof (cases "redis_keys ''stockxpert:*'' now r1")
      case keys: (Pair y r2)
      with Pair Inr c show ?thesis
        by (cases y) (simp_all add: get_cache_stats_def get_cache_stats_body_def try_except_def)
    qed
  qed
qed

lemma no_fault_info_keys:
  assumes "no_fault 2 r"
  shows "\<exists>info keys. fst (redis_info r) = Inr info \<and>
           fst (redis_keys p now (snd (redis_info r))) = Inr keys"
proof -
  from assms have nf: "no_fault (Suc 1) r" by (simp add: numeral_2_eq_2)
  obtain f r1 where req1: "request INFO r = (f, r1)"
    by (cases "request INFO r")
  from no_fault_request [OF nf req1] have f: "f = None" and nf1: "no_fault (Suc 0) r1"
    by simp_all
  obtain g r2 where req2: "request (KEYS p) r1 = (g, r2)"
    by (cases "request (KEYS p) r1")
  from no_fault_request [OF nf1 req2] have g: "g = None" by simp
  from req1 f req2 g show ?thesis
    by (simp add: redis_info_def redis_keys_def)
qed

lemma get_cache_stats_remote:
  assumes c: "redis_client svc = Some c"
  shows "\<exists>st. fst (get_cache_stats now (svc, r)) = Inr st \<and>
         st = (case fst (redis_info r) of
                Inl e \<Rightarrow> [(''error'', DStr (str_exn e))]
              | Inr info \<Rightarrow>
                  (case fst (redis_keys ''stockxpert:*'' now (snd (redis_info r))) of
                     Inl e \<Rightarrow> [(''error'', DStr (str_exn e))]
                   | Inr keys \<Rightarrow>
                     [(''backend'', DStr ''redis''), (''connected'', DBool True),
                      (''total_keys'', DInt (int (fcard keys))),
                      (''memory_usage'', dict_get info ''used_memory_human'' (DStr ''Unknown'')),
                      (''hits'', dict_get info ''keyspace_hits'' (DInt 0)),
                      (''misses'', dict_get info ''keyspace_misses'' (DInt 0))])) \<and>
         map_of st ''backend'' =
           (case fst (redis_info r) of
                Inl e \<Rightarrow> None
              | Inr info \<Rightarrow>
                  (case fst (redis_keys ''stockxpert:*'' now (snd (redis_info r))) of
                     Inl e \<Rightarrow> None
                   | Inr keys \<Rightarrow> Some (DStr ''redis''))) \<and>
         (no_fault 2 r \<longrightarrow> map_of st ''backend'' = Some (DStr ''redis''))"
proof -
  let ?st = "(case fst (redis_info r) of
                Inl e \<Rightarrow> [(''error'', DStr (str_exn e))]
              | Inr info \<Rightarrow>
                  (case fst (redis_keys ''stockxpert:*'' now (snd (redis_info r))) of
                     Inl e \<Rightarrow> [(''error'', DStr (str_exn e))]
                   | Inr keys \<Rightarrow>
                     [(''backend'', DStr ''redis''), (''connected'', DBool True),
                      (''total_keys'', DInt (int (fcard keys))),
                      (''memory_usage'', dict_get info ''used_memory_human'' (DStr ''Unknown'')),
                      (''hits'', dict_get info ''keyspace_hits'' (DInt 0)),
                      (''misses'', dict_get info ''keyspace_misses'' (DInt 0))]))"
  have bk: "map_of ?st ''backend'' =
           (case fst (redis_info r) of
                Inl e \<Rightarrow> None
              | Inr info \<Rightarrow>
                  (case fst (redis_keys ''stockxpert:*'' now (snd (redis_info r))) of
                     Inl e \<Rightarrow> None
                   | Inr keys \<Rightarrow> Some (DStr ''redis'')))"
    by (simp split: sum.splits)
  have "map_of ?st ''backend'' = Some (DStr ''redis'')" if "no_fault 2 r"
    using no_fault_info_keys [OF that, of "''stockxpert:*''" now] by (auto simp: bk)
  with get_cache_stats_remote_exact [OF c, of now r] bk show ?thesis
    by (intro exI [of _ ?st]) simp
qed

text \<open>
  C5, as the code has it. The constructor keeps a client exactly when its connection
  attempt went through: \<open>int\<close> read the pool size, \<open>redis.from_url\<close> built the client and
  the \<open>ping\<close> did not raise. No method changes \<open>redis_client\<close>. On the fallback the
  statistics are the dictionary with backend \<open>in-memory\<close>, the number of keys of the
  fallback dictionary, and \<open>hits\<close> and \<open>misses\<close> at zero. With a client, the statistics
  are the dictionary with backend \<open>redis\<close> when neither \<open>info\<close> nor \<open>keys\<close> raises, and
  when one of them raises the result is the dictionary that holds \<open>error\<close> alone, which has
  no \<open>backend\<close>.
\<close>

theorem stats_backend:
  "(\<forall>svc0 r'. cache_service_init lib env r = (Inr svc0, r') \<longrightarrow>
      (redis_client svc0 \<noteq> None \<longleftrightarrow>
         (\<exists>kw c. from_url_kwargs lib env = Inr kw \<and> from_url lib kw = Inr c \<and>
                 (\<exists>b. fst (redis_ping r) = Inr b)))) \<and>
   redis_client (fst (snd (set_cache lib now k v (svc, r)))) = redis_client svc \<and>
   redis_client (fst (snd (get_cache lib now k (svc, r)))) = redis_client svc \<and>
   redis_client (fst (snd (delete_cache now k (svc, r)))) = redis_client svc \<and>
   redis_client (fst (snd (clear_cache now (svc, r)))) = redis_client svc \<and>
   redis_client (fst (snd (get_cache_stats now (svc, r)))) = redis_client svc \<and>
   redis_client (fst (snd (health_check t0 t1 (svc, r)))) = redis_client svc \<and>
   (redis_client svc = None \<longrightarrow>
      get_cache_stats now (svc, r) =
        (Inr [(''backend'', DStr ''in-memory''), (''connected'', DBool False),
              (''total_keys'', DInt (int (fcard (fmdom (fallback_cache svc))))),
              (''memory_usage'', DStr ''Unknown''), (''hits'', DInt 0), (''misses'', DInt 0)],
         (svc, r))) \<and>
   (redis_client svc \<noteq> None \<longrightarrow>
      (\<exists>st. fst (get_cache_stats now (svc, r)) = Inr st \<and>
         st = (case fst (redis_info r) of
                Inl e \<Rightarrow> [(''error'', DStr (str_exn e))]
              | Inr info \<Rightarrow>
                  (case fst (redis_keys ''stockxpert:*'' now (snd (redis_info r))) of
                     Inl e \<Rightarrow> [(''error'', DStr (str_exn e))]
                   | Inr keys \<Rightarrow>
                     [(''backend'', DStr ''redis''), (''connected'', DBool True),
                      (''total_keys'', DInt (int (fcard keys))),
                      (''memory_usage'', dict_get info ''used_memory_human'' (DStr ''Unknown'')),
                      (''hits'', dict_get info ''keyspace_hits'' (DInt 0)),
                      (''misses'', dict_get info ''keyspace_misses'' (DInt 0))])) \<and>
         map_of st ''backend'' =
           (case fst (redis_info r) of
                Inl e \<Rightarrow> None
              | Inr info \<Rightarrow>
                  (case fst (redis_keys ''stockxpert:*'' now (snd (redis_info r))) of
                     Inl e \<Rightarrow> None
                   | Inr keys \<Rightarrow> Some (DStr ''redis''))) \<and>
         (no_fault 2 r \<longrightarrow> map_of st ''backend'' = Some (DStr ''redis''))))"
proof (intro conjI allI impI)
  fix svc0 r'
  assume "cache_service_init lib env r = (Inr svc0, r')"
  then show "redis_client svc0 \<noteq> None \<longleftrightarrow>
         (\<exists>kw c. from_url_kwargs lib env = Inr kw \<and> from_url lib kw = Inr c \<and>
                 (\<exists>b. fst (redis_ping r) = Inr b))"
    by (rule init_client)
next
  assume "redis_client svc = None"
  then show "get_cache_stats now (svc, r) =
        (Inr [(''backend'', DStr ''in-memory''), (''connected'', DBool False),
              (''total_keys'', DInt (int (fcard (fmdom (fallback_cache svc))))),
              (''memory_usage'', DStr ''Unknown''), (''hits'', DInt 0), (''misses'', DInt 0)],
         (svc, r))"
    by (rule get_cache_stats_local)
next
  assume "redis_client svc \<noteq> None"
  then obtain c where "redis_client svc = Some c" by auto
  then show "\<exists>st. fst (get_cache_stats now (svc, r)) = Inr st \<and>
         st = (case fst (redis_info r) of
                Inl e \<Rightarrow> [(''error'', DStr (str_exn e))]
              | Inr info \<Rightarrow>
                  (case fst (redis_keys ''stockxpert:*'' now (snd (redis_info r))) of
                     Inl e \<Rightarrow> [(''error'', DStr (str_exn e))]
                   | Inr keys \<Rightarrow>
                     [(''backend'', DStr ''redis''), (''connected'', DBool True),
                      (''total_keys'', DInt (int (fcard keys))),
                      (''memory_usage'', dict_get info ''used_memory_human'' (DStr ''Unknown'')),
                      (''hits'', dict_get info ''keyspace_hits'' (DInt 0)),
                      (''misses'', dict_get info ''keyspace_misses'' (DInt 0))])) \<and>
         map_of st ''backend'' =
           (case fst (redis_info r) of
                Inl e \<Rightarrow> None
              | Inr info \<Rightarrow>
                  (case fst (redis_keys ''stockxpert:*'' now (snd (redis_info r))) of
                     Inl e \<Rightarrow> None
                   | Inr keys \<Rightarrow> Some (DStr ''redis''))) \<and>
         (no_fault 2 r \<longrightarrow> map_of st ''backend'' = Some (DStr ''redis''))"
    by (rule get_cache_stats_remote)
qed (rule set_cache_keeps_client get_cache_keeps_client delete_cache_keeps_client
      clear_cache_keeps_client get_cache_stats_keeps_client health_check_keeps_client)+

lemma init_default_up:
  "cache_service_init sample_lib env_empty redis_up = (Inr svc_remote, redis_up\<lparr>sent := [PING]\<rparr>)"
proof -
  have kw: "from_url_kwargs sample_lib env_empty = Inr kwargs_default"
    by (rule from_url_kwargs_default) (simp_all add: env_empty_def)
  have fu: "from_url sample_lib kwargs_default = Inr kwargs_default"
    by (simp add: sample_lib_def kwargs_default_def)
  have "connect sample_lib env_empty redis_up = (Inr kwargs_default, redis_up\<lparr>sent := [PING]\<rparr>)"
    by (simp add: connect_def kw fu redis_ping_def request_def redis_up_def)
  then show ?thesis
    by (simp add: cache_service_init_def getenv_int_def env_empty_def svc_remote_def)
qed

theorem stats_backend_witness:
  "cache_service_init sample_lib env_empty redis_up = (Inr svc_remote, redis_up\<lparr>sent := [PING]\<rparr>) \<and>
   from_url_kwargs sample_lib env_empty = Inr kwargs_default \<and>
   from_url sample_lib kwargs_default = Inr kwargs_default \<and>
   fst (redis_ping redis_up) = Inr True \<and>
   redis_client svc_remote \<noteq> None \<and>
   redis_client (fst (snd (get_cache_stats 1000 (svc_remote, redis_failing)))) = redis_client svc_remote \<and>
   redis_client (fst (snd (clear_cache 1000 (svc_two, redis_up)))) = redis_client svc_two \<and>
   redis_client svc_two = None \<and>
   get_cache_stats 1000 (svc_two, redis_up) =
     (Inr [(''backend'', DStr ''in-memory''), (''connected'', DBool False),
           (''total_keys'', DInt 2), (''memory_usage'', DStr ''Unknown''),
           (''hits'', DInt 0), (''misses'', DInt 0)],
      (svc_two, redis_up)) \<and>
   no_fault 2 redis_busy \<and>
   (\<exists>st. fst (get_cache_stats 1000 (svc_remote, redis_busy)) = Inr st \<and>
         map_of st ''backend'' = Some (DStr ''redis'')) \<and>
   fst (redis_info redis_failing) = Inl (TimeoutError ''Timeout reading from socket'') \<and>
   fst (get_cache_stats 1000 (svc_remote, redis_failing)) =
     Inr [(''error'', DStr ''Timeout reading from socket'')]"
proof -
  have kw: "from_url_kwargs sample_lib env_empty = Inr kwargs_default"
    "from_url sample_lib kwargs_default = Inr kwargs_default"
    "fst (redis_ping redis_up) = Inr True"
    by (simp_all add: from_url_kwargs_def getenv_int_def getenv_str_def env_empty_def
        kwargs_default_def sample_lib_def redis_ping_def request_def redis_up_def)
  have l: "redis_client svc_two = None" "fcard (fmdom (fallback_cache svc_two)) = 2"
    by (simp_all add: svc_two_def fcard_finsert_if)
  have nf: "no_fault 2 redis_busy"
    by (simp add: no_fault_def redis_busy_def redis_up_def)
  have fi: "fst (redis_info redis_failing) = Inl (TimeoutError ''Timeout reading from socket'')"
    by (simp add: redis_info_def request_def redis_failing_def)
  note a = stats_backend [of sample_lib env_empty redis_up 1000 "''a''" PNone svc_remote 0 1]
  note b = stats_backend [of sample_lib env_empty redis_failing 1000 "''a''" PNone svc_remote 0 1]
  note c = stats_backend [of sample_lib env_empty redis_up 1000 "''a''" PNone svc_two 0 1]
  note d = stats_backend [of sample_lib env_empty redis_busy 1000 "''a''" PNone svc_remote 0 1]
  from a [THEN conjunct1, rule_format, OF init_default_up] kw
  have r: "redis_client svc_remote \<noteq> None" by blast
  from d r nf have "\<exists>st. fst (get_cache_stats 1000 (svc_remote, redis_busy)) = Inr st \<and>
         map_of st ''backend'' = Some (DStr ''redis'')"
    by blast
  moreover from c l have "get_cache_stats 1000 (svc_two, redis_up) =
     (Inr [(''backend'', DStr ''in-memory''), (''connected'', DBool False),
           (''total_keys'', DInt 2), (''memory_usage'', DStr ''Unknown''),
           (''hits'', DInt 0), (''misses'', DInt 0)],
      (svc_two, redis_up))"
    by simp
  moreover from b have "redis_client (fst (snd (get_cache_stats 1000 (svc_remote, redis_failing)))) =
      redis_client svc_remote"
    by blast
  moreover from c have "redis_client (fst (snd (clear_cache 1000 (svc_two, redis_up)))) =
      redis_client svc_two"
    by blast
  moreover from b r have "\<exists>st. fst (get_cache_stats 1000 (svc_remote, redis_failing)) = Inr st \<and>
      st = (case fst (redis_info redis_failing) of
              Inl e \<Rightarrow> [(''error'', DStr (str_exn e))]
            | Inr info \<Rightarrow>
                (case fst (redis_keys ''stockxpert:*'' 1000 (snd (redis_info redis_failing))) of
                   Inl e \<Rightarrow> [(''error'', DStr (str_exn e))]
                 | Inr keys \<Rightarrow>
                     [(''backend'', DStr ''redis''), (''connected'', DBool True),
                      (''total_keys'', DInt (int (fcard keys))),
                      (''memory_usage'', dict_get info ''used_memory_human'' (DStr ''Unknown'')),
                      (''hits'', dict_get info ''keyspace_hits'' (DInt 0)),
                      (''misses'', dict_get info ''keyspace_misses'' (DInt 0))]))"
    by blast
  then have "fst (get_cache_stats 1000 (svc_remote, redis_failing)) =
     Inr [(''error'', DStr ''Timeout reading from socket'')]"
    by (simp add: fi)
  ultimately show ?thesis
    using init_default_up kw r l nf fi by simp
qed

text \<open>
  C5 as stated fails once the server stops answering: for a service built against a
  reachable server, a \<open>get_cache_stats\<close> whose \<open>info\<close> call times out returns the
  dictionary that holds \<open>error\<close> alone, so there is no \<open>backend\<close> to read.
\<close>

theorem stats_backend_counterexample:
  "cache_service_init sample_lib env_empty redis_up = (Inr svc_remote, redis_up\<lparr>sent := [PING]\<rparr>) \<and>
   fst (get_cache_stats 1000 (svc_remote, redis_failing)) =
     Inr [(''error'', DStr ''Timeout reading from socket'')] \<and>
   map_of (projr (fst (get_cache_stats 1000 (svc_remote, redis_failing)))) ''backend'' = None"
proof -
  have "fst (get_cache_stats 1000 (svc_remote, redis_failing)) =
          Inr [(''error'', DStr ''Timeout reading from socket'')]"
    by (simp add: get_cache_stats_def get_cache_stats_body_def try_except_def redis_info_def
        request_def svc_remote_def redis_failing_def)
  with init_default_up show ?thesis by simp
qed

subsection \<open>Configuration\<close>




subsection \<open>Namespaced keys\<close>

text \<open>
  C7. With a Redis client, \<open>set_cache\<close>, \<open>get_cache\<close> and \<open>delete_cache\<close> send exactly
  one command each, on the name \<open>stockxpert:\<close> followed by the key; \<open>clear_cache\<close>
  enumerates with the pattern \<open>stockxpert:*\<close> and, when it deletes, deletes only names
  that start with \<open>stockxpert:\<close>. The two other methods send no key: \<open>get_cache_stats\<close>
  sends \<open>INFO\<close> and the same enumeration, \<open>health_check\<close> a \<open>PING\<close>.
\<close>

theorem namespaced_commands:
  "redis_client svc = Some c \<Longrightarrow>
   sent (snd (snd (set_cache lib now k v (svc, r)))) =
     sent r @ [SETEX (''stockxpert:'' @ k) (cache_ttl svc) (serialize_data lib v)] \<and>
   sent (snd (snd (get_cache lib now k (svc, r)))) = sent r @ [GET (''stockxpert:'' @ k)] \<and>
   sent (snd (snd (delete_cache now k (svc, r)))) = sent r @ [DEL {|''stockxpert:'' @ k|}] \<and>
   (\<exists>ks. (sent (snd (snd (clear_cache now (svc, r)))) = sent r @ [KEYS ''stockxpert:*''] \<or>
          sent (snd (snd (clear_cache now (svc, r)))) = sent r @ [KEYS ''stockxpert:*'', DEL ks]) \<and>
         (\<forall>n. n |\<in>| ks \<longrightarrow> (\<exists>t. n = ''stockxpert:'' @ t))) \<and>
   (sent (snd (snd (get_cache_stats now (svc, r)))) = sent r @ [INFO] \<or>
    sent (snd (snd (get_cache_stats now (svc, r)))) = sent r @ [INFO, KEYS ''stockxpert:*'']) \<and>
   sent (snd (snd (health_check t0 t1 (svc, r)))) = sent r @ [PING]"
proof (intro conjI)
  assume c: "redis_client svc = Some c"
  show "sent (snd (snd (health_check t0 t1 (svc, r)))) = sent r @ [PING]"
    by (rule request_cases [of PING r])
       (simp_all add: c health_check_def health_check_body_def try_except_def redis_ping_def)
  show "sent (snd (snd (get_cache_stats now (svc, r)))) = sent r @ [INFO] \<or>
    sent (snd (snd (get_cache_stats now (svc, r)))) = sent r @ [INFO, KEYS ''stockxpert:*'']"
  proof (rule request_cases [of INFO r])
    fix e r'
    assume "request INFO r = (Some e, r')" "sent r' = sent r @ [INFO]"
    then show ?thesis
      by (simp add: c get_cache_stats_def get_cache_stats_body_def try_except_def redis_info_def)
  next
    fix r'
    assume req: "request INFO r = (None, r')" and snt: "sent r' = sent r @ [INFO]"
    have "sent (snd (snd (get_cache_stats now (svc, r)))) = sent r @ [INFO, KEYS ''stockxpert:*'']"
      by (rule request_cases [of "KEYS ''stockxpert:*''" r'])
         (use req snt in \<open>simp_all add: c get_cache_stats_def get_cache_stats_body_def
            try_except_def redis_info_def redis_keys_def\<close>)
    then show ?thesis by simp
  qed
  show "sent (snd (snd (set_cache lib now k v (svc, r)))) =
     sent r @ [SETEX (''stockxpert:'' @ k) (cache_ttl svc) (serialize_data lib v)]"
    by (rule request_cases [of "SETEX (''stockxpert:'' @ k) (cache_ttl svc) (serialize_data lib v)" r])
       (simp_all add: c set_cache_def set_cache_body_def try_except_def redis_setex_def)
  show "sent (snd (snd (get_cache lib now k (svc, r)))) = sent r @ [GET (''stockxpert:'' @ k)]"
    by (rule request_cases [of "GET (''stockxpert:'' @ k)" r])
       (simp_all add: c get_cache_def get_cache_body_def try_except_def redis_get_def
          split: option.splits sum.splits)
  show "sent (snd (snd (delete_cache now k (svc, r)))) = sent r @ [DEL {|''stockxpert:'' @ k|}]"
    by (rule request_cases [of "DEL {|''stockxpert:'' @ k|}" r])
       (simp_all add: c delete_cache_def delete_cache_body_def try_except_def redis_delete_def)
  show "\<exists>ks. (sent (snd (snd (clear_cache now (svc, r)))) = sent r @ [KEYS ''stockxpert:*''] \<or>
          sent (snd (snd (clear_cache now (svc, r)))) = sent r @ [KEYS ''stockxpert:*'', DEL ks]) \<and>
         (\<forall>n. n |\<in>| ks \<longrightarrow> (\<exists>t. n = ''stockxpert:'' @ t))"
  proof (rule request_cases [of "KEYS ''stockxpert:*''" r])
    fix e r'
    assume "request (KEYS ''stockxpert:*'') r = (Some e, r')" "sent r' = sent r @ [KEYS ''stockxpert:*'']"
    then have "sent (snd (snd (clear_cache now (svc, r)))) = sent r @ [KEYS ''stockxpert:*'']"
      by (simp add: c clear_cache_def clear_cache_body_def try_except_def redis_keys_def)
    then show ?thesis by (intro exI [of _ "{||}"]) simp
  next
    fix r'
    assume req: "request (KEYS ''stockxpert:*'') r = (None, r')"
      and snt: "sent r' = sent r @ [KEYS ''stockxpert:*'']"
    let ?ks = "ffilter (glob ''stockxpert:*'') (live_keys now r')"
    have pre: "\<forall>n. n |\<in>| ?ks \<longrightarrow> (\<exists>t. n = ''stockxpert:'' @ t)"
      by (simp add: glob_namespace)
    show ?thesis
    proof (cases "?ks = {||}")
      case True
      then have "sent (snd (snd (clear_cache now (svc, r)))) = sent r @ [KEYS ''stockxpert:*'']"
        using req snt
        by (simp add: c clear_cache_def clear_cache_body_def try_except_def redis_keys_def)
      then show ?thesis by (intro exI [of _ "{||}"]) simp
    next
      case False
      have "sent (snd (snd (clear_cache now (svc, r)))) =
              sent r @ [KEYS ''stockxpert:*'', DEL ?ks]"
        by (rule request_cases [of "DEL ?ks" r'])
           (use req snt False in \<open>simp_all add: c clear_cache_def clear_cache_body_def
              try_except_def redis_keys_def redis_delete_def\<close>)
      with pre show ?thesis by blast
    qed
  qed
qed

theorem namespaced_commands_witness:
  "redis_client svc_remote = Some kwargs_default \<and>
   sent (snd (snd (set_cache sample_lib 1000 ''a'' (PList [PInt 1, PInt 2]) (svc_remote, redis_up)))) =
     [SETEX ''stockxpert:a'' 3600 ''[1, 2]''] \<and>
   sent (snd (snd (get_cache sample_lib 1000 ''a'' (svc_remote, redis_up)))) =
     [GET ''stockxpert:a''] \<and>
   sent (snd (snd (delete_cache 1000 ''a'' (svc_remote, redis_up)))) =
     [DEL {|''stockxpert:a''|}] \<and>
   (\<exists>ks. (sent (snd (snd (clear_cache 1000 (svc_remote, redis_up)))) = [KEYS ''stockxpert:*''] \<or>
          sent (snd (snd (clear_cache 1000 (svc_remote, redis_up)))) =
            [KEYS ''stockxpert:*'', DEL ks]) \<and>
         (\<forall>n. n |\<in>| ks \<longrightarrow> (\<exists>t. n = ''stockxpert:'' @ t))) \<and>
   sent (snd (snd (health_check 0 1500 (svc_remote, redis_up)))) = [PING]"
proof -
  have c: "redis_client svc_remote = Some kwargs_default"
    by (simp add: svc_remote_def)
  have s: "sent redis_up = []" "cache_ttl svc_remote = 3600"
    "serialize_data sample_lib (PList [PInt 1, PInt 2]) = ''[1, 2]''"
    by (simp_all add: redis_up_def svc_remote_def serialize_data_def sample_lib_def)
  show ?thesis
    using namespaced_commands [OF c, of sample_lib 1000 "''a''" "PList [PInt 1, PInt 2]" redis_up
        0 1500]
    by (simp add: c s)
qed

subsection \<open>Deleting\<close>

text \<open>
  C8. \<open>delete_cache\<close> returns \<open>True\<close> exactly when the active backend held an entry
  for the key before the call and holds none after it, so it returns \<open>False\<close> when there
  was no entry; on the fallback, and on the server when the call is not hit by a fault,
  no entry for the key is left; the entries of all other keys stay as they were.
\<close>

theorem delete_cache_reports_removal:
  "fst (delete_cache now k w) =
     Inr (holds_entry now w k \<and> \<not> holds_entry now (snd (delete_cache now k w)) k) \<and>
   (\<not> holds_entry now w k \<longrightarrow> fst (delete_cache now k w) = Inr False) \<and>
   (redis_client (fst w) = None \<or> no_fault 1 (snd w) \<longrightarrow>
      (\<forall>t. \<not> holds_entry t (snd (delete_cache now k w)) k)) \<and>
   (\<forall>k' t. k' \<noteq> k \<longrightarrow> holds_entry t (snd (delete_cache now k w)) k' = holds_entry t w k')"
proof (cases w)
  case (Pair svc r)
  show ?thesis
  proof (cases "redis_client svc")
    case None
    with Pair show ?thesis
      by (simp add: delete_cache_local holds_entry_def)
  next
    case (Some c)
    show ?thesis
    proof (rule request_cases [of "DEL {|''stockxpert:'' @ k|}" r])
      fix r'
      assume req: "request (DEL {|''stockxpert:'' @ k|}) r = (None, r')"
        and st: "store r' = store r"
      show ?thesis
        using Pair Some
        by (simp add: delete_cache_remote_ok [OF Some req] holds_entry_def redis_lookup_drop
            redis_lookup_store [OF st])
    next
      fix e r'
      assume req: "request (DEL {|''stockxpert:'' @ k|}) r = (Some e, r')"
        and st: "store r' = store r"
      have nf: "\<not> no_fault 1 r"
        using no_fault_request [of 0 r _ "Some e" r'] req by auto
      show ?thesis
        using Pair Some nf
        by (cases "redis_lookup now r (''stockxpert:'' @ k)")
           (simp_all add: delete_cache_remote_fault [OF Some req] holds_entry_def
              redis_lookup_store [OF st])
    qed
  qed
qed

theorem delete_cache_reports_removal_witness:
  "holds_entry 1000 (svc_two, redis_up) ''a'' \<and>
   fst (delete_cache 1000 ''a'' (svc_two, redis_up)) = Inr True \<and>
   \<not> holds_entry 1000 (snd (delete_cache 1000 ''a'' (svc_two, redis_up))) ''a'' \<and>
   holds_entry 1000 (snd (delete_cache 1000 ''a'' (svc_two, redis_up))) ''b'' \<and>
   \<not> holds_entry 1000 (svc_two, redis_up) ''c'' \<and>
   fst (delete_cache 1000 ''c'' (svc_two, redis_up)) = Inr False \<and>
   holds_entry 1000 (svc_remote, redis_busy) ''a'' \<and>
   no_fault 1 redis_busy \<and>
   fst (delete_cache 1000 ''a'' (svc_remote, redis_busy)) = Inr True \<and>
   \<not> holds_entry 1000 (snd (delete_cache 1000 ''a'' (svc_remote, redis_busy))) ''a'' \<and>
   \<not> holds_entry 1000 (svc_remote, redis_busy) ''old'' \<and>
   fst (delete_cache 1000 ''old'' (svc_remote, redis_busy)) = Inr False"
proof -
  have h: "holds_entry 1000 (svc_two, redis_up) ''a''" "holds_entry 1000 (svc_two, redis_up) ''b''"
    "\<not> holds_entry 1000 (svc_two, redis_up) ''c''"
    "holds_entry 1000 (svc_remote, redis_busy) ''a''"
    "\<not> holds_entry 1000 (svc_remote, redis_busy) ''old''"
    by (simp_all add: holds_entry_def svc_two_def svc_remote_def redis_busy_def redis_up_def
        redis_lookup_def)
  have n: "redis_client (fst (svc_two, redis_up)) = None" "no_fault 1 redis_busy"
    by (simp_all add: svc_two_def no_fault_def redis_busy_def redis_up_def)
  show ?thesis
    using delete_cache_reports_removal [of 1000 "''a''" "(svc_two, redis_up)"]
      delete_cache_reports_removal [of 1000 "''c''" "(svc_two, redis_up)"]
      delete_cache_reports_removal [of 1000 "''a''" "(svc_remote, redis_busy)"]
      delete_cache_reports_removal [of 1000 "''old''" "(svc_remote, redis_busy)"]
      h n
    by simp
qed

subsection \<open>Clearing\<close>

text \<open>
  C9. On the fallback, and on the server when the two calls are not hit by a fault,
  \<open>clear_cache\<close> returns \<open>True\<close> whatever the cache held (also when it held nothing),
  and afterwards \<open>get_cache\<close> returns \<open>None\<close> for every key.
\<close>

theorem clear_cache_empties:
  "redis_client (fst w) = None \<or> no_fault 2 (snd w) \<Longrightarrow>
     fst (clear_cache now w) = Inr True \<and>
     (\<forall>k t lib. now \<le> t \<longrightarrow> fst (get_cache lib t k (snd (clear_cache now w))) = Inr None)"
proof (cases w)
  case (Pair svc r)
  assume a: "redis_client (fst w) = None \<or> no_fault 2 (snd w)"
  show ?thesis
  proof (cases "redis_client svc")
    case None
    have "\<not> holds_entry t (svc\<lparr>fallback_cache := fmempty\<rparr>, r) k" for t k
      using None by (simp add: holds_entry_def)
    then show ?thesis
      using Pair None by (simp add: clear_cache_local get_cache_absent)
  next
    case (Some c)
    with a Pair have "no_fault 2 r" by simp
    from clear_cache_remote [OF Some this, of now] obtain r'
      where cl: "clear_cache now (svc, r) = (Inr True, (svc, r'))"
        and gone: "\<forall>k t. now \<le> t \<longrightarrow> redis_lookup t r' (''stockxpert:'' @ k) = None"
      by blast
    have "\<not> holds_entry t (svc, r') k" if "now \<le> t" for t k
      using Some gone that by (simp add: holds_entry_def)
    then show ?thesis
      using Pair cl by (simp add: get_cache_absent)
  qed
qed

theorem clear_cache_empties_witness:
  "redis_client (fst (svc_two, redis_up)) = None \<and>
   fst (clear_cache 1000 (svc_two, redis_up)) = Inr True \<and>
   fst (get_cache sample_lib 1000 ''a'' (snd (clear_cache 1000 (svc_two, redis_up)))) = Inr None \<and>
   no_fault 2 (snd (svc_remote, redis_busy)) \<and>
   fst (clear_cache 1000 (svc_remote, redis_busy)) = Inr True \<and>
   fst (get_cache sample_lib 2000 ''a'' (snd (clear_cache 1000 (svc_remote, redis_busy)))) = Inr None \<and>
   fst (clear_cache 1000 (svc_remote, redis_up)) = Inr True"
proof -
  have n: "redis_client (fst (svc_two, redis_up)) = None" "no_fault 2 (snd (svc_remote, redis_busy))"
    "no_fault 2 (snd (svc_remote, redis_up))"
    by (simp_all add: svc_two_def no_fault_def redis_busy_def redis_up_def)
  show ?thesis
    using clear_cache_empties [of "(svc_two, redis_up)" 1000]
      clear_cache_empties [of "(svc_remote, redis_busy)" 1000]
      clear_cache_empties [of "(svc_remote, redis_up)" 1000]
      n
    by simp
qed

subsection \<open>No serialization on the fallback\<close>

text \<open>
  C10. On the fallback, \<open>set_cache\<close> puts the value itself into the dictionary and
  never calls the codec (the result is the same for every \<open>lib\<close>), and \<open>get_cache\<close>
  gives that value back whatever the codec would do with it; for an object given by its
  address, \<open>PRef a\<close>, what is stored and what is returned is that address: the very object,
  not a copy. With a client, a value that \<open>json.dumps\<close> refuses is stored as the text \<open>{}\<close>
  when the server accepts the write, and stored bytes that \<open>json.loads\<close> refuses are read
  as the empty dictionary.
\<close>

theorem fallback_keeps_object:
  "(redis_client svc = None \<longrightarrow>
      set_cache lib now k v (svc, r) =
        (Inr True,
         (svc\<lparr>fallback_cache := fmupd k \<lparr>timestamp = now, data = v\<rparr> (fallback_cache svc)\<rparr>, r)) \<and>
      (\<forall>lib' t. t - now < cache_ttl svc * 1000000 \<longrightarrow>
         fst (get_cache lib' t k (snd (set_cache lib now k v (svc, r)))) = Inr (Some v)) \<and>
      (\<forall>lib' t a. t - now < cache_ttl svc * 1000000 \<longrightarrow>
         fmlookup (fallback_cache (fst (snd (set_cache lib now k (PRef a) (svc, r))))) k =
           Some \<lparr>timestamp = now, data = PRef a\<rparr> \<and>
         fst (get_cache lib' t k (snd (set_cache lib now k (PRef a) (svc, r)))) =
           Inr (Some (PRef a)))) \<and>
   (redis_client svc \<noteq> None \<and> no_fault 1 r \<and> expiry_accepted (cache_ttl svc) now \<longrightarrow>
      (\<forall>e. json_dumps lib v = Inl e \<longrightarrow>
         redis_lookup now (snd (snd (set_cache lib now k v (svc, r)))) (''stockxpert:'' @ k) =
           Some ''{}'')) \<and>
   (redis_client svc \<noteq> None \<and> no_fault 1 r \<longrightarrow>
      (\<forall>b s e. redis_lookup now r (''stockxpert:'' @ k) = Some b \<and> b \<noteq> [] \<and>
               bytes_decode lib b = Inr s \<and> json_loads lib s = Inl e \<longrightarrow>
         fst (get_cache lib now k (svc, r)) = Inr (Some (PDict []))))"
proof (intro conjI impI allI)
  assume "redis_client svc = None"
  then show "set_cache lib now k v (svc, r) =
        (Inr True,
         (svc\<lparr>fallback_cache := fmupd k \<lparr>timestamp = now, data = v\<rparr> (fallback_cache svc)\<rparr>, r))"
    by (rule set_cache_local)
next
  fix lib' t
  assume "redis_client svc = None" "t - now < cache_ttl svc * 1000000"
  then show "fst (get_cache lib' t k (snd (set_cache lib now k v (svc, r)))) = Inr (Some v)"
    by (rule set_get_local)
next
  fix lib' :: pylib and t :: int and a :: nat
  assume n: "redis_client svc = None"
  then show "fmlookup (fallback_cache (fst (snd (set_cache lib now k (PRef a) (svc, r))))) k =
           Some \<lparr>timestamp = now, data = PRef a\<rparr>"
    by (simp add: set_cache_local)
next
  fix lib' t a
  assume "redis_client svc = None" "t - now < cache_ttl svc * 1000000"
  then show "fst (get_cache lib' t k (snd (set_cache lib now k (PRef a) (svc, r)))) =
           Inr (Some (PRef a))"
    by (rule set_get_local)
next
  fix e
  assume a: "redis_client svc \<noteq> None \<and> no_fault 1 r \<and> expiry_accepted (cache_ttl svc) now"
    and e: "json_dumps lib v = Inl e"
  from a obtain c where c: "redis_client svc = Some c" by auto
  from a have nf: "no_fault (Suc 0) r" and ttl: "expiry_accepted (cache_ttl svc) now"
    by simp_all
  from ttl have pos: "0 < cache_ttl svc"
    by (simp add: expiry_accepted_def)
  from e have "serialize_data lib v = ''{}''"
    by (simp add: serialize_data_def)
  with set_cache_remote_ok [OF c nf ttl, of lib k v now] pos
  show "redis_lookup now (snd (snd (set_cache lib now k v (svc, r)))) (''stockxpert:'' @ k) =
          Some ''{}''"
    by auto
next
  fix b s e
  assume a: "redis_client svc \<noteq> None \<and> no_fault 1 r"
    and b: "redis_lookup now r (''stockxpert:'' @ k) = Some b \<and> b \<noteq> [] \<and>
               bytes_decode lib b = Inr s \<and> json_loads lib s = Inl e"
  from a obtain c where c: "redis_client svc = Some c" by auto
  from a have nf: "no_fault (Suc 0) r" by simp
  from b have "deserialize_data lib s = PDict []"
    by (simp add: deserialize_data_def)
  with get_cache_remote_ok [OF c nf, of now k b lib s] b
  show "fst (get_cache lib now k (svc, r)) = Inr (Some (PDict []))"
    by simp
qed

theorem fallback_keeps_object_witness:
  "redis_client svc_two = None \<and>
   json_dumps sample_lib tuple_keyed = Inl (TypeError ''keys must be str, int, float, bool or None'') \<and>
   fmlookup (fallback_cache (fst (snd (set_cache sample_lib 1000 ''k'' tuple_keyed (svc_two, redis_up)))))
     ''k'' = Some \<lparr>timestamp = 1000, data = tuple_keyed\<rparr> \<and>
   fst (get_cache sample_lib 2000 ''k''
          (snd (set_cache sample_lib 1000 ''k'' tuple_keyed (svc_two, redis_up))))
     = Inr (Some tuple_keyed) \<and>
   (2000 :: int) - 1000 < cache_ttl svc_two * 1000000 \<and>
   fmlookup (fallback_cache (fst (snd (set_cache sample_lib 1000 ''k'' (PRef 7) (svc_two, redis_up)))))
     ''k'' = Some \<lparr>timestamp = 1000, data = PRef 7\<rparr> \<and>
   fst (get_cache sample_lib 2000 ''k''
          (snd (set_cache sample_lib 1000 ''k'' (PRef 7) (svc_two, redis_up))))
     = Inr (Some (PRef 7)) \<and>
   redis_client svc_remote \<noteq> None \<and> no_fault 1 redis_up \<and>
   expiry_accepted (cache_ttl svc_remote) 1000 \<and>
   redis_lookup 1000 (snd (snd (set_cache sample_lib 1000 ''k'' tuple_keyed (svc_remote, redis_up))))
     ''stockxpert:k'' = Some ''{}'' \<and>
   no_fault 1 redis_busy \<and>
   redis_lookup 1000 redis_busy ''stockxpert:junk'' = Some ''not json'' \<and>
   bytes_decode sample_lib ''not json'' = Inr ''not json'' \<and>
   json_loads sample_lib ''not json'' = Inl (JSONDecodeError ''Expecting value'') \<and>
   fst (get_cache sample_lib 1000 ''junk'' (svc_remote, redis_busy)) = Inr (Some (PDict []))"
proof -
  have l: "redis_client svc_two = None" "cache_ttl svc_two = 3600"
    "redis_client svc_remote \<noteq> None" "cache_ttl svc_remote = 3600"
    "no_fault 1 redis_up" "no_fault 1 redis_busy"
    by (simp_all add: svc_two_def svc_remote_def no_fault_def redis_up_def redis_busy_def)
  have x: "expiry_accepted 3600 1000"
    by (simp add: expiry_accepted_def)
  have j: "json_dumps sample_lib tuple_keyed =
             Inl (TypeError ''keys must be str, int, float, bool or None'')"
    "bytes_decode sample_lib ''not json'' = Inr ''not json''"
    "json_loads sample_lib ''not json'' = Inl (JSONDecodeError ''Expecting value'')"
    by (simp_all add: sample_lib_def tuple_keyed_def)
  have s: "redis_lookup 1000 redis_busy ''stockxpert:junk'' = Some ''not json''"
    by (simp add: redis_lookup_def redis_busy_def redis_up_def)
  note loc = fallback_keeps_object [of svc_two sample_lib 1000 "''k''" tuple_keyed redis_up]
  from loc l have st: "set_cache sample_lib 1000 ''k'' tuple_keyed (svc_two, redis_up) =
      (Inr True,
       (svc_two\<lparr>fallback_cache :=
            fmupd ''k'' \<lparr>timestamp = 1000, data = tuple_keyed\<rparr> (fallback_cache svc_two)\<rparr>,
        redis_up))"
    by simp
  from loc [THEN conjunct1, rule_format, OF l(1), THEN conjunct2, THEN conjunct1, rule_format,
      of 2000 sample_lib] l
  have gt: "fst (get_cache sample_lib 2000 ''k''
               (snd (set_cache sample_lib 1000 ''k'' tuple_keyed (svc_two, redis_up))))
             = Inr (Some tuple_keyed)"
    by simp
  from loc [THEN conjunct1, rule_format, OF l(1), THEN conjunct2, THEN conjunct2, rule_format,
      of 2000 7 sample_lib] l
  have rf: "fmlookup (fallback_cache (fst (snd (set_cache sample_lib 1000 ''k'' (PRef 7)
               (svc_two, redis_up))))) ''k'' = Some \<lparr>timestamp = 1000, data = PRef 7\<rparr>"
    "fst (get_cache sample_lib 2000 ''k''
          (snd (set_cache sample_lib 1000 ''k'' (PRef 7) (svc_two, redis_up))))
       = Inr (Some (PRef 7))"
    by simp_all
  have lk: "fmlookup (fallback_cache (fst (snd (set_cache sample_lib 1000 ''k'' tuple_keyed
               (svc_two, redis_up))))) ''k'' = Some \<lparr>timestamp = 1000, data = tuple_keyed\<rparr>"
    by (simp add: st)
  show ?thesis
    using fallback_keeps_object [of svc_remote sample_lib 1000 "''k''" tuple_keyed redis_up,
        THEN conjunct2]
      fallback_keeps_object [of svc_remote sample_lib 1000 "''junk''" tuple_keyed redis_busy,
        THEN conjunct2]
      l x j s gt lk rf
    by simp
qed

end
